theory Spec2Isabelle
  imports Complex_Main
begin

section \<open>Model deployment: comparing a Staging candidate with the Production model\<close>

text \<open>
  A shallow embedding of \<^verbatim>\<open>src/telco_churn/model_deployment.py\<close>. The class
  \<^verbatim>\<open>ModelDeployment\<close> is a record, its methods are functions that take the record first
  (\<^verbatim>\<open>self\<close>). A leading underscore is not part of an Isabelle name, so
  \<^verbatim>\<open>_set_experiment\<close> is \<open>set_experiment\<close>, and so on. Calls of \<^verbatim>\<open>_logger.info\<close>
  change nothing the methods return or pass on and are left out.

  Every call that leaves the module (MLflow tracking, the MLflow Model Registry, the
  inference runner, the evaluator) is written to a trace before it is made, and may raise:
  what it answers is a parameter of the model (\<open>env\<close>), which may depend on everything
  that happened before.
\<close>

subsection \<open>Python values\<close>

text \<open>
  A Python \<^verbatim>\<open>float\<close> as far as comparisons see it: not-a-number, the two
  infinities, or a finite number. Every comparison with \<^verbatim>\<open>nan\<close> is false.
\<close>

datatype pyfloat = NaN | NegInf | Fin real | PosInf

fun float_le :: "pyfloat \<Rightarrow> pyfloat \<Rightarrow> bool" where
  "float_le NaN y = False"
| "float_le x NaN = False"
| "float_le NegInf y = True"
| "float_le x PosInf = True"
| "float_le (Fin a) (Fin b) = (a \<le> b)"
| "float_le (Fin a) NegInf = False"
| "float_le PosInf y = False"

fun float_lt :: "pyfloat \<Rightarrow> pyfloat \<Rightarrow> bool" where
  "float_lt NaN y = False"
| "float_lt x NaN = False"
| "float_lt (Fin a) (Fin b) = (a < b)"
| "float_lt NegInf NegInf = False"
| "float_lt NegInf y = True"
| "float_lt PosInf y = False"
| "float_lt (Fin a) PosInf = True"
| "float_lt (Fin a) NegInf = False"

definition float_ge :: "pyfloat \<Rightarrow> pyfloat \<Rightarrow> bool" where
  "float_ge x y = float_le y x"

definition float_gt :: "pyfloat \<Rightarrow> pyfloat \<Rightarrow> bool" where
  "float_gt x y = float_lt y x"

text \<open>The exceptions a run can end with. \<open>External\<close> stands for whatever a collaborator raises.\<close>

datatype error =
    RuntimeError string
  | KeyError string
  | IndexError
  | External string

subsection \<open>The class\<close>

text \<open>
  The dataclass. A field whose default is \<^verbatim>\<open>None\<close> is an option. The source annotates
  \<^verbatim>\<open>experiment_path\<close> as \<^verbatim>\<open>int\<close>, but documents it as the name of the experiment and
  passes it as \<^verbatim>\<open>experiment_name\<close>: it is a string here.
\<close>

record ModelDeployment =
  model_registry_name :: string
  reference_data :: string
  label_col :: string
  comparison_metric :: string
  higher_is_better :: bool
  experiment_id :: "int option"
  experiment_path :: "string option"

subsection \<open>The world outside the module\<close>

text \<open>
  A model version of the MLflow Model Registry: the registered model's name, the version
  number and the stage the version is in.
\<close>

record model_version =
  mv_name :: string
  mv_version :: nat
  current_stage :: string

datatype run_status = FINISHED | FAILED

text \<open>One entry of the trace for each call that leaves the module.\<close>

datatype event =
    SetExperimentId int
  | SetExperimentName string
  | StartRun string
  | EndRun run_status
  | RunBatch string string
  | ToPandas
  | Evaluate string
  | LogMetrics "string \<rightharpoonup> pyfloat"
  | GetLatestVersions string "string list"
  | TransitionModelVersionStage string nat string bool

record world =
  events :: "event list"
  registry :: "model_version list"

text \<open>
  What the collaborators answer. \<open>'df\<close> is a Spark DataFrame, \<open>'col\<close> a pandas Series;
  a pandas DataFrame is the map from its column names to its columns.
\<close>

record ('df, 'col) env =
  mlflow_set_experiment_id :: "world \<Rightarrow> int \<Rightarrow> error option"
  mlflow_set_experiment_name :: "world \<Rightarrow> string \<Rightarrow> error option"
  mlflow_start_run :: "world \<Rightarrow> string \<Rightarrow> error option"
  mlflow_log_metrics :: "world \<Rightarrow> (string \<rightharpoonup> pyfloat) \<Rightarrow> error option"
  run_batch :: "world \<Rightarrow> string \<Rightarrow> string \<Rightarrow> error + 'df"
  toPandas :: "world \<Rightarrow> 'df \<Rightarrow> error + (string \<rightharpoonup> 'col)"
  evaluate :: "world \<Rightarrow> 'col \<Rightarrow> 'col \<Rightarrow> string \<Rightarrow> error + (string \<rightharpoonup> pyfloat)"
  lookup_fault :: "world \<Rightarrow> string \<Rightarrow> string list \<Rightarrow> error option"
  transition_fault :: "world \<Rightarrow> string \<Rightarrow> nat \<Rightarrow> string \<Rightarrow> bool \<Rightarrow> error option"

text \<open>
  A computation with effects: it takes the world and returns the world it leaves and
  either the exception it raised (\<open>Inl\<close>) or its value (\<open>Inr\<close>).
\<close>

type_synonym 'a action = "world \<Rightarrow> world \<times> (error + 'a)"

definition emit :: "event \<Rightarrow> world \<Rightarrow> world" where
  "emit e w = w\<lparr>events := events w @ [e]\<rparr>"

definition return_value :: "'a \<Rightarrow> 'a action" where
  "return_value x w = (w, Inr x)"

definition raise :: "error \<Rightarrow> 'a action" where
  "raise e w = (w, Inl e)"

text \<open>Sequencing: the second statement runs only when the first raised nothing.\<close>

definition and_then :: "'a action \<Rightarrow> ('a \<Rightarrow> 'b action) \<Rightarrow> 'b action" where
  "and_then m f w = (case m w of (w1, Inl e) \<Rightarrow> (w1, Inl e) | (w1, Inr x) \<Rightarrow> f x w1)"

text \<open>A call of a collaborator: the call is traced, then its answer is returned or raised.\<close>

definition call :: "event \<Rightarrow> (world \<Rightarrow> error + 'a) \<Rightarrow> 'a action" where
  "call e answer w = (emit e w, answer w)"

definition call_unit :: "event \<Rightarrow> (world \<Rightarrow> error option) \<Rightarrow> unit action" where
  "call_unit e fault w = (emit e w, case fault w of Some err \<Rightarrow> Inl err | None \<Rightarrow> Inr ())"

text \<open>\<^verbatim>\<open>d[k]\<close> on a dict or a pandas DataFrame, and \<^verbatim>\<open>xs[0]\<close> on a list.\<close>

definition getitem :: "(string \<rightharpoonup> 'v) \<Rightarrow> string \<Rightarrow> 'v action" where
  "getitem d k = (case d k of None \<Rightarrow> raise (KeyError k) | Some v \<Rightarrow> return_value v)"

definition getitem0 :: "'a list \<Rightarrow> 'a action" where
  "getitem0 xs = (case xs of [] \<Rightarrow> raise IndexError | x # rest \<Rightarrow> return_value x)"

text \<open>
  \<^verbatim>\<open>with mlflow.start_run(run_name=...):\<close> the run is started; if that raised, the
  body does not run. Otherwise the body runs and, whether it returned or raised, the run is
  ended on the way out (with status FAILED when the body raised) and the body's outcome is
  passed on.
\<close>

definition with_start_run :: "('df, 'col) env \<Rightarrow> string \<Rightarrow> 'a action \<Rightarrow> 'a action" where
  "with_start_run env run_name body w =
     (case call_unit (StartRun run_name) (\<lambda>w. mlflow_start_run env w run_name) w of
        (w1, Inl e) \<Rightarrow> (w1, Inl e)
      | (w1, Inr u) \<Rightarrow>
          (case body w1 of
             (w2, Inl e) \<Rightarrow> (emit (EndRun FAILED) w2, Inl e)
           | (w2, Inr x) \<Rightarrow> (emit (EndRun FINISHED) w2, Inr x)))"

subsection \<open>The registry client\<close>

text \<open>
  Modelled from the spec: the registry client. The MLflow Model Registry is a library
  outside the repository; the spec gives its interface as
  \<^verbatim>\<open>latest_version(model_name, stage) -> version_metadata\<close> and
  \<^verbatim>\<open>transition_stage(model_name, version, new_stage, archive_existing: bool)\<close>,
  where the latest version is the most recent version in the stage and a transition with
  \<^verbatim>\<open>archive_existing\<close> archives all other versions of the model in the new stage in the
  same call. A rejected call leaves the registry as it was.
\<close>

fun most_recent :: "model_version list \<Rightarrow> model_version option" where
  "most_recent [] = None"
| "most_recent (mv # mvs) =
     (case most_recent mvs of
        None \<Rightarrow> Some mv
      | Some best \<Rightarrow> if mv_version best < mv_version mv then Some mv else Some best)"

definition in_stage :: "string \<Rightarrow> string \<Rightarrow> model_version \<Rightarrow> bool" where
  "in_stage name stage mv = (mv_name mv = name \<and> current_stage mv = stage)"

definition latest_version :: "model_version list \<Rightarrow> string \<Rightarrow> string \<Rightarrow> model_version option" where
  "latest_version reg name stage = most_recent (filter (in_stage name stage) reg)"

definition latest_versions :: "model_version list \<Rightarrow> string \<Rightarrow> string list \<Rightarrow> model_version list" where
  "latest_versions reg name stages =
     concat (map (\<lambda>stage. case latest_version reg name stage of None \<Rightarrow> [] | Some mv \<Rightarrow> [mv]) stages)"

definition transition_one :: "string \<Rightarrow> nat \<Rightarrow> string \<Rightarrow> bool \<Rightarrow> model_version \<Rightarrow> model_version" where
  "transition_one name ver stage archive_existing mv =
     (if mv_name mv \<noteq> name then mv
      else if mv_version mv = ver then mv\<lparr>current_stage := stage\<rparr>
      else if archive_existing \<and> current_stage mv = stage then mv\<lparr>current_stage := ''archived''\<rparr>
      else mv)"

definition transition_stage ::
  "model_version list \<Rightarrow> string \<Rightarrow> nat \<Rightarrow> string \<Rightarrow> bool \<Rightarrow> model_version list" where
  "transition_stage reg name ver stage archive_existing =
     map (transition_one name ver stage archive_existing) reg"

definition get_latest_versions ::
  "('df, 'col) env \<Rightarrow> string \<Rightarrow> string list \<Rightarrow> model_version list action" where
  "get_latest_versions env name stages w =
     (emit (GetLatestVersions name stages) w,
      case lookup_fault env w name stages of
        Some err \<Rightarrow> Inl err
      | None \<Rightarrow> Inr (latest_versions (registry w) name stages))"

definition transition_model_version_stage ::
  "('df, 'col) env \<Rightarrow> string \<Rightarrow> nat \<Rightarrow> string \<Rightarrow> bool \<Rightarrow> unit action" where
  "transition_model_version_stage env name ver stage archive_existing_versions w =
     (let w1 = emit (TransitionModelVersionStage name ver stage archive_existing_versions) w
      in case transition_fault env w name ver stage archive_existing_versions of
           Some err \<Rightarrow> (w1, Inl err)
         | None \<Rightarrow>
             (w1\<lparr>registry := transition_stage (registry w) name ver stage archive_existing_versions\<rparr>,
              Inr ()))"

subsection \<open>The methods of ModelDeployment\<close>

definition set_experiment :: "ModelDeployment \<Rightarrow> ('df, 'col) env \<Rightarrow> unit action" where
  "set_experiment self env =
     (case experiment_id self of
        Some i \<Rightarrow> call_unit (SetExperimentId i) (\<lambda>w. mlflow_set_experiment_id env w i)
      | None \<Rightarrow>
          (case experiment_path self of
             Some p \<Rightarrow> call_unit (SetExperimentName p) (\<lambda>w. mlflow_set_experiment_name env w p)
           | None \<Rightarrow>
               raise (RuntimeError ''MLflow experiment_id or experiment_path must be set in mlflow_params'')))"

definition get_model_uri_by_stage :: "ModelDeployment \<Rightarrow> string \<Rightarrow> string" where
  "get_model_uri_by_stage self stage = ''models:/'' @ model_registry_name self @ ''/'' @ stage"

definition batch_inference_by_stage :: "ModelDeployment \<Rightarrow> ('df, 'col) env \<Rightarrow> string \<Rightarrow> 'df action" where
  "batch_inference_by_stage self env stage =
     (let model_uri = get_model_uri_by_stage self stage
      in call (RunBatch model_uri (reference_data self))
              (\<lambda>w. run_batch env w model_uri (reference_data self)))"

definition get_evaluation_metric ::
  "('df, 'col) env \<Rightarrow> 'col \<Rightarrow> 'col \<Rightarrow> string \<Rightarrow> string \<Rightarrow> pyfloat action" where
  "get_evaluation_metric env y_true y_score metric stage =
     (let metric_prefix = stage @ ''_''
      in and_then (call (Evaluate metric_prefix) (\<lambda>w. evaluate env w y_true y_score metric_prefix))
           (\<lambda>eval_dict.
         and_then (call_unit (LogMetrics eval_dict) (\<lambda>w. mlflow_log_metrics env w eval_dict))
           (\<lambda>u.
         getitem eval_dict (metric_prefix @ metric))))"

definition run_promotion_logic ::
  "ModelDeployment \<Rightarrow> ('df, 'col) env \<Rightarrow> pyfloat \<Rightarrow> pyfloat \<Rightarrow> unit action" where
  "run_promotion_logic self env staging_eval_metric production_eval_metric =
     and_then (get_latest_versions env (model_registry_name self) [''staging''])
       (\<lambda>versions.
     and_then (getitem0 versions)
       (\<lambda>staging_model_version.
     if higher_is_better self then
       if float_le staging_eval_metric production_eval_metric then
         transition_model_version_stage env (model_registry_name self)
           (mv_version staging_model_version) ''archived'' False
       else if float_gt staging_eval_metric production_eval_metric then
         transition_model_version_stage env (model_registry_name self)
           (mv_version staging_model_version) ''production'' True
       else return_value ()
     else
       if float_ge staging_eval_metric production_eval_metric then
         transition_model_version_stage env (model_registry_name self)
           (mv_version staging_model_version) ''archived'' False
       else if float_lt staging_eval_metric production_eval_metric then
         transition_model_version_stage env (model_registry_name self)
           (mv_version staging_model_version) ''production'' True
       else return_value ()))"

definition run :: "ModelDeployment \<Rightarrow> ('df, 'col) env \<Rightarrow> unit action" where
  "run self env =
     and_then (set_experiment self env)
       (\<lambda>u.
     with_start_run env ''Model Comparison''
      (and_then (batch_inference_by_stage self env ''staging'')
         (\<lambda>staging_inference_pred_df.
       and_then (batch_inference_by_stage self env ''production'')
         (\<lambda>prod_inference_pred_df.
       and_then (call ToPandas (\<lambda>w. toPandas env w staging_inference_pred_df))
         (\<lambda>staging_inference_pred_pdf.
       and_then (call ToPandas (\<lambda>w. toPandas env w prod_inference_pred_df))
         (\<lambda>prod_inference_pred_pdf.
       and_then (getitem staging_inference_pred_pdf (label_col self))
         (\<lambda>staging_y_true.
       and_then (getitem staging_inference_pred_pdf ''prediction'')
         (\<lambda>staging_y_score.
       and_then (get_evaluation_metric env staging_y_true staging_y_score (comparison_metric self) ''staging'')
         (\<lambda>staging_eval_metric.
       and_then (getitem prod_inference_pred_pdf (label_col self))
         (\<lambda>prod_y_true.
       and_then (getitem prod_inference_pred_pdf ''prediction'')
         (\<lambda>prod_y_score.
       and_then (get_evaluation_metric env prod_y_true prod_y_score (comparison_metric self) ''production'')
         (\<lambda>production_eval_metric.
       run_promotion_logic self env staging_eval_metric production_eval_metric))))))))))))"

text \<open>
  The statements of the body of \<^verbatim>\<open>run\<close> that come before the promotion step, as one
  computation that returns the two metrics. It is only a name for that part of \<open>run\<close>:
  \<open>run_split\<close> below shows that \<open>run\<close> is these statements followed by
  \<^verbatim>\<open>_run_promotion_logic\<close>.
\<close>

definition comparison_metrics :: "ModelDeployment \<Rightarrow> ('df, 'col) env \<Rightarrow> (pyfloat \<times> pyfloat) action" where
  "comparison_metrics self env =
     and_then (batch_inference_by_stage self env ''staging'')
       (\<lambda>staging_inference_pred_df.
     and_then (batch_inference_by_stage self env ''production'')
       (\<lambda>prod_inference_pred_df.
     and_then (call ToPandas (\<lambda>w. toPandas env w staging_inference_pred_df))
       (\<lambda>staging_inference_pred_pdf.
     and_then (call ToPandas (\<lambda>w. toPandas env w prod_inference_pred_df))
       (\<lambda>prod_inference_pred_pdf.
     and_then (getitem staging_inference_pred_pdf (label_col self))
       (\<lambda>staging_y_true.
     and_then (getitem staging_inference_pred_pdf ''prediction'')
       (\<lambda>staging_y_score.
     and_then (get_evaluation_metric env staging_y_true staging_y_score (comparison_metric self) ''staging'')
       (\<lambda>staging_eval_metric.
     and_then (getitem prod_inference_pred_pdf (label_col self))
       (\<lambda>prod_y_true.
     and_then (getitem prod_inference_pred_pdf ''prediction'')
       (\<lambda>prod_y_score.
     and_then (get_evaluation_metric env prod_y_true prod_y_score (comparison_metric self) ''production'')
       (\<lambda>production_eval_metric.
     return_value (staging_eval_metric, production_eval_metric)))))))))))"

subsection \<open>Reading a trace\<close>

text \<open>The calls made between an earlier world and a later one.\<close>

definition new_events :: "world \<Rightarrow> world \<Rightarrow> event list" where
  "new_events w w' = drop (length (events w)) (events w')"

fun is_transition :: "event \<Rightarrow> bool" where
  "is_transition (TransitionModelVersionStage name ver stage archive_existing) = True"
| "is_transition e = False"

fun is_scope_event :: "event \<Rightarrow> bool" where
  "is_scope_event (StartRun run_name) = True"
| "is_scope_event (EndRun status) = True"
| "is_scope_event e = False"

fun is_registry_call :: "event \<Rightarrow> bool" where
  "is_registry_call (TransitionModelVersionStage name ver stage archive_existing) = True"
| "is_registry_call (GetLatestVersions name stages) = True"
| "is_registry_call e = False"

text \<open>
  What a trace says was decided: for each stage transition in it, the stage asked for and
  whether existing versions were to be archived.
\<close>

fun decisions :: "event list \<Rightarrow> (string \<times> bool) list" where
  "decisions [] = []"
| "decisions (TransitionModelVersionStage name ver stage archive_existing # es) =
     (stage, archive_existing) # decisions es"
| "decisions (e # es) = decisions es"

subsection \<open>A concrete deployment\<close>

text \<open>
  A deployment, a registry and collaborators that always answer, used to run the methods
  on concrete inputs: model \<^verbatim>\<open>churn\<close> has version 1 in production and versions 2 and 3
  in staging; the evaluator scores the staging model 0.85 and the production model 0.80.
\<close>

definition demo_deployment :: ModelDeployment where
  "demo_deployment =
     \<lparr>model_registry_name = ''churn'', reference_data = ''ref'', label_col = ''label'',
      comparison_metric = ''auc'', higher_is_better = True,
      experiment_id = Some 7, experiment_path = None\<rparr>"

definition demo_registry :: "model_version list" where
  "demo_registry =
     [\<lparr>mv_name = ''churn'', mv_version = 1, current_stage = ''production''\<rparr>,
      \<lparr>mv_name = ''churn'', mv_version = 2, current_stage = ''staging''\<rparr>,
      \<lparr>mv_name = ''churn'', mv_version = 3, current_stage = ''staging''\<rparr>,
      \<lparr>mv_name = ''other'', mv_version = 1, current_stage = ''production''\<rparr>]"

definition demo_world :: world where
  "demo_world = \<lparr>events = [], registry = demo_registry\<rparr>"

definition demo_frame :: "string \<rightharpoonup> nat list" where
  "demo_frame = [''label'' \<mapsto> [1, 0], ''prediction'' \<mapsto> [1, 1]]"

definition demo_metrics :: "string \<Rightarrow> string \<rightharpoonup> pyfloat" where
  "demo_metrics metric_prefix =
     [metric_prefix @ ''auc'' \<mapsto> (if metric_prefix = ''staging_'' then Fin (85 / 100) else Fin (80 / 100))]"

definition demo_env :: "(string \<rightharpoonup> nat list, nat list) env" where
  "demo_env =
     \<lparr>mlflow_set_experiment_id = (\<lambda>w i. None),
      mlflow_set_experiment_name = (\<lambda>w p. None),
      mlflow_start_run = (\<lambda>w run_name. None),
      mlflow_log_metrics = (\<lambda>w d. None),
      run_batch = (\<lambda>w model_uri inference_data. Inr demo_frame),
      toPandas = (\<lambda>w df. Inr df),
      evaluate = (\<lambda>w y_true y_score metric_prefix. Inr (demo_metrics metric_prefix)),
      lookup_fault = (\<lambda>w name stages. None),
      transition_fault = (\<lambda>w name ver stage archive_existing. None)\<rparr>"

section \<open>Basic facts\<close>

lemma emit_events: "events (emit e w) = events w @ [e]"
  by (simp add: emit_def)

lemma emit_registry: "registry (emit e w) = registry w"
  by (simp add: emit_def)

lemma new_events_append: "events w' = events w @ es \<Longrightarrow> new_events w w' = es"
  by (simp add: new_events_def)

lemma new_events_emit_only: "new_events w (emit e w) = [e]"
  by (simp add: new_events_def emit_def)

subsection \<open>Comparisons of floats\<close>

lemma float_lt_irrefl: "\<not> float_lt x x"
  by (cases x) simp_all

lemma float_lt_not_le: "float_lt y x \<Longrightarrow> \<not> float_le x y"
  by (cases x; cases y) simp_all

lemma float_le_not_lt: "float_le y x \<Longrightarrow> \<not> float_lt x y"
  by (cases x; cases y) simp_all

subsection \<open>The registry\<close>

lemma latest_versions_single:
  "latest_versions reg name [stage] =
     (case latest_version reg name stage of None \<Rightarrow> [] | Some mv \<Rightarrow> [mv])"
  by (simp add: latest_versions_def)

lemma most_recent_None: "most_recent xs = None \<longleftrightarrow> xs = []"
  by (induction xs) (auto split: option.splits)

lemma most_recent_Some:
  "most_recent xs = Some b \<Longrightarrow> b \<in> set xs \<and> (\<forall>x\<in>set xs. mv_version x \<le> mv_version b)"
proof (induction xs arbitrary: b)
  case Nil
  then show ?case by simp
next
  case (Cons a xs)
  show ?case
  proof (cases "most_recent xs")
    case None
    then have "xs = []" by (simp add: most_recent_None)
    with Cons.prems show ?thesis by simp
  next
    case (Some best)
    from Cons.IH [OF Some] Cons.prems Some show ?thesis
      by (auto split: if_splits)
  qed
qed

lemma latest_version_None:
  "latest_version reg name stage = None \<longleftrightarrow> (\<forall>mv\<in>set reg. \<not> in_stage name stage mv)"
  by (simp add: latest_version_def most_recent_None filter_empty_conv)

lemma latest_version_Some:
  "latest_version reg name stage = Some mv \<Longrightarrow>
     mv \<in> set reg \<and> in_stage name stage mv \<and>
     (\<forall>x\<in>set reg. in_stage name stage x \<longrightarrow> mv_version x \<le> mv_version mv)"
  by (auto simp add: latest_version_def dest!: most_recent_Some)

lemma demo_latest_staging:
  "latest_version demo_registry ''churn'' ''staging'' =
     Some \<lparr>mv_name = ''churn'', mv_version = 3, current_stage = ''staging''\<rparr>"
  by (simp add: latest_version_def demo_registry_def in_stage_def)

lemma transition_events:
  "events (fst (transition_model_version_stage env n v st b w)) =
     events w @ [TransitionModelVersionStage n v st b]"
  by (simp add: transition_model_version_stage_def Let_def emit_def split: option.splits)

lemma new_events_transition_after_lookup:
  "new_events w (fst (transition_model_version_stage env n v st b (emit e w))) =
     [e, TransitionModelVersionStage n v st b]"
  by (rule new_events_append) (simp add: transition_events emit_events)

subsection \<open>Sequencing\<close>

lemma and_then_call:
  "and_then (call e f) g w = (case f w of Inl err \<Rightarrow> (emit e w, Inl err) | Inr x \<Rightarrow> g x (emit e w))"
  by (simp add: and_then_def call_def split: sum.splits)

lemma and_then_call_unit:
  "and_then (call_unit e f) g w = (case f w of Some err \<Rightarrow> (emit e w, Inl err) | None \<Rightarrow> g () (emit e w))"
  by (simp add: and_then_def call_unit_def split: option.splits)

lemma and_then_getitem:
  "and_then (getitem d k) g w = (case d k of None \<Rightarrow> (w, Inl (KeyError k)) | Some v \<Rightarrow> g v w)"
  by (simp add: and_then_def getitem_def raise_def return_value_def split: option.splits)

lemma and_then_raise: "and_then (raise e) g w = (w, Inl e)"
  by (simp add: and_then_def raise_def)

lemma and_then_return: "and_then (return_value x) g w = g x w"
  by (simp add: and_then_def return_value_def)

lemma and_then_assoc: "and_then (and_then m f) g = and_then m (\<lambda>x. and_then (f x) g)"
  by (rule ext) (simp add: and_then_def split: prod.splits sum.splits)

lemma with_start_run_unfold:
  "with_start_run env name body w =
     (case mlflow_start_run env w name of
        Some err \<Rightarrow> (emit (StartRun name) w, Inl err)
      | None \<Rightarrow>
          (case body (emit (StartRun name) w) of
             (w2, Inl e) \<Rightarrow> (emit (EndRun FAILED) w2, Inl e)
           | (w2, Inr x) \<Rightarrow> (emit (EndRun FINISHED) w2, Inr x)))"
  by (simp add: with_start_run_def call_unit_def split: option.splits)

section \<open>The promotion logic\<close>

text \<open>
  \<^verbatim>\<open>_run_promotion_logic\<close> with its two library calls spelled out: the lookup of the
  latest staging version, element 0 of the answer, and then the branch on the two metrics.
\<close>

lemma run_promotion_logic_unfold:
  "run_promotion_logic self env s p w =
    (let n = model_registry_name self; w1 = emit (GetLatestVersions n [''staging'']) w in
     case lookup_fault env w n [''staging''] of
       Some err \<Rightarrow> (w1, Inl err)
     | None \<Rightarrow>
        (case latest_version (registry w) n ''staging'' of
           None \<Rightarrow> (w1, Inl IndexError)
         | Some mv \<Rightarrow>
            (if higher_is_better self then
               if float_le s p
               then transition_model_version_stage env n (mv_version mv) ''archived'' False w1
               else if float_gt s p
               then transition_model_version_stage env n (mv_version mv) ''production'' True w1
               else (w1, Inr ())
             else
               if float_ge s p
               then transition_model_version_stage env n (mv_version mv) ''archived'' False w1
               else if float_lt s p
               then transition_model_version_stage env n (mv_version mv) ''production'' True w1
               else (w1, Inr ()))))"
  by (simp add: run_promotion_logic_def and_then_def get_latest_versions_def getitem0_def
      latest_versions_single raise_def return_value_def Let_def emit_registry split: option.splits)

lemma promotion_tie_events:
  "new_events w (fst (run_promotion_logic self env x x w)) =
     [GetLatestVersions (model_registry_name self) [''staging'']] \<or>
   (\<exists>ver. new_events w (fst (run_promotion_logic self env x x w)) =
     [GetLatestVersions (model_registry_name self) [''staging''],
      TransitionModelVersionStage (model_registry_name self) ver ''archived'' False])"
  by (simp add: run_promotion_logic_unfold Let_def float_lt_irrefl float_ge_def float_gt_def
      new_events_transition_after_lookup new_events_emit_only split: option.splits)

text \<open>
  C1. The four cases of the promotion policy. Whenever the registry answers the lookup
  with a staging version \<open>mv\<close>, the calls \<^verbatim>\<open>_run_promotion_logic\<close> makes are the
  lookup and then one stage transition of \<open>mv\<close>: with \<open>higher_is_better\<close>, staging
  \<open>\<le>\<close> production sends it to \<^verbatim>\<open>archived\<close> and staging \<open>>\<close> production sends it to
  \<^verbatim>\<open>production\<close> with \<^verbatim>\<open>archive_existing_versions=True\<close>; without
  \<open>higher_is_better\<close>, staging \<open>\<ge>\<close> production archives it and staging \<open><\<close> production
  promotes it. And for equal metric values no transition to \<^verbatim>\<open>production\<close> is among the
  calls, whatever the flag, the registry and the collaborators.
\<close>

theorem promotion_policy:
  "(lookup_fault env w (model_registry_name self) [''staging''] = None \<longrightarrow>
    latest_version (registry w) (model_registry_name self) ''staging'' = Some mv \<longrightarrow>
      (higher_is_better self \<and> float_le s p \<longrightarrow>
         new_events w (fst (run_promotion_logic self env s p w)) =
           [GetLatestVersions (model_registry_name self) [''staging''],
            TransitionModelVersionStage (model_registry_name self) (mv_version mv) ''archived'' False]) \<and>
      (higher_is_better self \<and> float_gt s p \<longrightarrow>
         new_events w (fst (run_promotion_logic self env s p w)) =
           [GetLatestVersions (model_registry_name self) [''staging''],
            TransitionModelVersionStage (model_registry_name self) (mv_version mv) ''production'' True]) \<and>
      (\<not> higher_is_better self \<and> float_ge s p \<longrightarrow>
         new_events w (fst (run_promotion_logic self env s p w)) =
           [GetLatestVersions (model_registry_name self) [''staging''],
            TransitionModelVersionStage (model_registry_name self) (mv_version mv) ''archived'' False]) \<and>
      (\<not> higher_is_better self \<and> float_lt s p \<longrightarrow>
         new_events w (fst (run_promotion_logic self env s p w)) =
           [GetLatestVersions (model_registry_name self) [''staging''],
            TransitionModelVersionStage (model_registry_name self) (mv_version mv) ''production'' True])) \<and>
   (\<forall>x name ver archive_existing.
      TransitionModelVersionStage name ver ''production'' archive_existing
        \<notin> set (new_events w (fst (run_promotion_logic self env x x w))))"
proof (intro conjI impI allI)
  fix x name ver archive_existing
  show "TransitionModelVersionStage name ver ''production'' archive_existing
        \<notin> set (new_events w (fst (run_promotion_logic self env x x w)))"
    using promotion_tie_events [of w self env x] by auto
qed (simp_all add: run_promotion_logic_unfold Let_def float_ge_def float_gt_def
      float_lt_not_le float_le_not_lt new_events_transition_after_lookup)

text \<open>The policy on the demo registry, once for each of the four cases.\<close>

theorem promotion_policy_witness:
  "lookup_fault demo_env demo_world ''churn'' [''staging''] = None \<and>
   latest_version (registry demo_world) ''churn'' ''staging'' =
     Some \<lparr>mv_name = ''churn'', mv_version = 3, current_stage = ''staging''\<rparr> \<and>
   float_gt (Fin (85 / 100)) (Fin (80 / 100)) \<and>
   new_events demo_world
     (fst (run_promotion_logic demo_deployment demo_env (Fin (85 / 100)) (Fin (80 / 100)) demo_world)) =
     [GetLatestVersions ''churn'' [''staging''],
      TransitionModelVersionStage ''churn'' 3 ''production'' True] \<and>
   float_le (Fin (80 / 100)) (Fin (85 / 100)) \<and>
   new_events demo_world
     (fst (run_promotion_logic demo_deployment demo_env (Fin (80 / 100)) (Fin (85 / 100)) demo_world)) =
     [GetLatestVersions ''churn'' [''staging''],
      TransitionModelVersionStage ''churn'' 3 ''archived'' False] \<and>
   float_lt (Fin (10 / 100)) (Fin (20 / 100)) \<and>
   new_events demo_world
     (fst (run_promotion_logic (demo_deployment\<lparr>higher_is_better := False\<rparr>) demo_env
        (Fin (10 / 100)) (Fin (20 / 100)) demo_world)) =
     [GetLatestVersions ''churn'' [''staging''],
      TransitionModelVersionStage ''churn'' 3 ''production'' True] \<and>
   float_ge (Fin (20 / 100)) (Fin (20 / 100)) \<and>
   new_events demo_world
     (fst (run_promotion_logic (demo_deployment\<lparr>higher_is_better := False\<rparr>) demo_env
        (Fin (20 / 100)) (Fin (20 / 100)) demo_world)) =
     [GetLatestVersions ''churn'' [''staging''],
      TransitionModelVersionStage ''churn'' 3 ''archived'' False]"
proof -
  let ?mv = "\<lparr>mv_name = ''churn'', mv_version = 3, current_stage = ''staging''\<rparr>"
  let ?lower = "demo_deployment\<lparr>higher_is_better := False\<rparr>"
  have name: "model_registry_name demo_deployment = ''churn''" "model_registry_name ?lower = ''churn''"
    and flag: "higher_is_better demo_deployment" "\<not> higher_is_better ?lower"
    by (simp_all add: demo_deployment_def)
  have fault: "lookup_fault demo_env demo_world ''churn'' [''staging''] = None"
    by (simp add: demo_env_def)
  have latest: "latest_version (registry demo_world) ''churn'' ''staging'' = Some ?mv"
    by (simp add: demo_world_def demo_latest_staging)
  have cmp: "float_gt (Fin (85 / 100)) (Fin (80 / 100))" "float_le (Fin (80 / 100)) (Fin (85 / 100))"
    "float_lt (Fin (10 / 100)) (Fin (20 / 100))" "float_ge (Fin (20 / 100)) (Fin (20 / 100))"
    by (simp_all add: float_gt_def float_ge_def)
  show ?thesis
    using promotion_policy [of demo_env demo_world demo_deployment ?mv "Fin (80 / 100)" "Fin (85 / 100)"]
      promotion_policy [of demo_env demo_world demo_deployment ?mv "Fin (85 / 100)" "Fin (80 / 100)"]
      promotion_policy [of demo_env demo_world ?lower ?mv "Fin (10 / 100)" "Fin (20 / 100)"]
      promotion_policy [of demo_env demo_world ?lower ?mv "Fin (20 / 100)" "Fin (20 / 100)"]
      name flag fault latest cmp
    by simp
qed

section \<open>The run\<close>

text \<open>\<open>run\<close> is: set the experiment, open the run, compute the two metrics, apply the promotion logic.\<close>

lemma run_split:
  "run self env =
     and_then (set_experiment self env)
       (\<lambda>u. with_start_run env ''Model Comparison''
          (and_then (comparison_metrics self env)
             (\<lambda>(s, p). run_promotion_logic self env s p)))"
  by (simp add: run_def comparison_metrics_def and_then_assoc and_then_return[abs_def])

lemmas metric_steps = comparison_metrics_def batch_inference_by_stage_def get_evaluation_metric_def
  and_then_call and_then_call_unit and_then_getitem and_then_raise and_then_assoc and_then_return
  Let_def

lemma comparison_metrics_failed:
  "comparison_metrics self env w = (w2, Inl e) \<Longrightarrow>
     registry w2 = registry w \<and>
     (\<exists>es. events w2 = events w @ es \<and> list_all (\<lambda>e. \<not> is_registry_call e \<and> \<not> is_scope_event e) es)"
  by (auto simp add: metric_steps return_value_def emit_def split: sum.splits option.splits)

lemma comparison_metrics_returned:
  "comparison_metrics self env w = (w2, Inr (s, p)) \<Longrightarrow>
     registry w2 = registry w \<and>
     (\<exists>d1 d2 wa ya yb wb yc yd.
        events w2 = events w @
          [RunBatch (get_model_uri_by_stage self ''staging'') (reference_data self),
           RunBatch (get_model_uri_by_stage self ''production'') (reference_data self),
           ToPandas, ToPandas,
           Evaluate ''staging_'', LogMetrics d1, Evaluate ''production_'', LogMetrics d2] \<and>
        evaluate env wa ya yb ''staging_'' = Inr d1 \<and>
        d1 (''staging_'' @ comparison_metric self) = Some s \<and>
        evaluate env wb yc yd ''production_'' = Inr d2 \<and>
        d2 (''production_'' @ comparison_metric self) = Some p)"
  by (auto simp add: metric_steps return_value_def emit_def split: sum.splits option.splits) blast+


lemma set_experiment_result:
  "set_experiment self env w = (w0, r) \<Longrightarrow>
     registry w0 = registry w \<and>
     (events w0 = events w \<and> (\<exists>e. r = Inl e) \<or>
      (\<exists>x. events w0 = events w @ [x] \<and>
         (x = SetExperimentId (the (experiment_id self)) \<or>
          x = SetExperimentName (the (experiment_path self)))))"
  by (auto simp add: set_experiment_def call_unit_def raise_def emit_def split: option.splits)

lemma run_shape:
  "(\<exists>e. snd (run self env w) = Inl e \<and> registry (fst (run self env w)) = registry w \<and>
        list_all (\<lambda>e. \<not> is_registry_call e) (new_events w (fst (run self env w)))) \<or>
   (\<exists>x d1 d2 s p w2 wa ya yb wb yc yd.
      events w2 = events w @
        [x, StartRun ''Model Comparison'',
         RunBatch (get_model_uri_by_stage self ''staging'') (reference_data self),
         RunBatch (get_model_uri_by_stage self ''production'') (reference_data self),
         ToPandas, ToPandas,
         Evaluate ''staging_'', LogMetrics d1, Evaluate ''production_'', LogMetrics d2] \<and>
      (x = SetExperimentId (the (experiment_id self)) \<or>
       x = SetExperimentName (the (experiment_path self))) \<and>
      registry w2 = registry w \<and>
      evaluate env wa ya yb ''staging_'' = Inr d1 \<and>
      d1 (''staging_'' @ comparison_metric self) = Some s \<and>
      evaluate env wb yc yd ''production_'' = Inr d2 \<and>
      d2 (''production_'' @ comparison_metric self) = Some p \<and>
      run self env w =
        (case run_promotion_logic self env s p w2 of
           (w3, Inl e) \<Rightarrow> (emit (EndRun FAILED) w3, Inl e)
         | (w3, Inr u) \<Rightarrow> (emit (EndRun FINISHED) w3, Inr u)))"
proof -
  obtain w0 r0 where se: "set_experiment self env w = (w0, r0)"
    by (cases "set_experiment self env w")
  note se_facts = set_experiment_result [OF se]
  show ?thesis
  proof (cases r0)
    case (Inl e)
    then have "run self env w = (w0, Inl e)"
      using se by (simp add: run_split and_then_def)
    then show ?thesis
      using se_facts by (auto simp add: new_events_def)
  next
    case (Inr u)
    then obtain x where x: "events w0 = events w @ [x]"
      "x = SetExperimentId (the (experiment_id self)) \<or> x = SetExperimentName (the (experiment_path self))"
      using se_facts by auto
    then have xr: "\<not> is_registry_call x" by auto
    show ?thesis
    proof (cases "mlflow_start_run env w0 ''Model Comparison''")
      case (Some err)
      then have "run self env w = (emit (StartRun ''Model Comparison'') w0, Inl err)"
        using se Inr by (simp add: run_split and_then_def with_start_run_unfold)
      then show ?thesis
        using se_facts x xr by (auto simp add: new_events_def emit_def)
    next
      case None
      let ?w1 = "emit (StartRun ''Model Comparison'') w0"
      obtain w2 r2 where cm: "comparison_metrics self env ?w1 = (w2, r2)"
        by (cases "comparison_metrics self env ?w1")
      show ?thesis
      proof (cases r2)
        case (Inl e)
        then have "run self env w = (emit (EndRun FAILED) w2, Inl e)"
          using se \<open>r0 = Inr u\<close> None cm by (simp add: run_split and_then_def with_start_run_unfold)
        moreover from comparison_metrics_failed [OF cm [unfolded Inl]]
        obtain es where "registry w2 = registry ?w1" "events w2 = events ?w1 @ es"
          "list_all (\<lambda>e. \<not> is_registry_call e \<and> \<not> is_scope_event e) es"
          by blast
        ultimately show ?thesis
          using se_facts x xr by (auto simp add: new_events_def emit_def list_all_iff)
      next
        case (Inr sp)
        obtain s p where sp: "sp = (s, p)" by (cases sp)
        have run_eq: "run self env w =
          (case run_promotion_logic self env s p w2 of
             (w3, Inl e) \<Rightarrow> (emit (EndRun FAILED) w3, Inl e)
           | (w3, Inr u) \<Rightarrow> (emit (EndRun FINISHED) w3, Inr u))"
          using se \<open>r0 = Inr u\<close> None cm Inr sp
          by (simp add: run_split and_then_def with_start_run_unfold split: prod.splits sum.splits)
        from comparison_metrics_returned [OF cm [unfolded Inr sp]]
        obtain d1 d2 wa ya yb wb yc yd where m:
          "registry w2 = registry ?w1"
          "events w2 = events ?w1 @
            [RunBatch (get_model_uri_by_stage self ''staging'') (reference_data self),
             RunBatch (get_model_uri_by_stage self ''production'') (reference_data self),
             ToPandas, ToPandas,
             Evaluate ''staging_'', LogMetrics d1, Evaluate ''production_'', LogMetrics d2]"
          "evaluate env wa ya yb ''staging_'' = Inr d1"
          "d1 (''staging_'' @ comparison_metric self) = Some s"
          "evaluate env wb yc yd ''production_'' = Inr d2"
          "d2 (''production_'' @ comparison_metric self) = Some p"
          by blast
        have "events w2 = events w @
            [x, StartRun ''Model Comparison'',
             RunBatch (get_model_uri_by_stage self ''staging'') (reference_data self),
             RunBatch (get_model_uri_by_stage self ''production'') (reference_data self),
             ToPandas, ToPandas,
             Evaluate ''staging_'', LogMetrics d1, Evaluate ''production_'', LogMetrics d2]"
          and "registry w2 = registry w"
          using m(1,2) x se_facts by (simp_all add: emit_def)
        with m(3-6) run_eq x(2) show ?thesis by blast
      qed
    qed
  qed
qed

section \<open>The tracking experiment\<close>

text \<open>
  C3. \<^verbatim>\<open>_set_experiment\<close> calls \<^verbatim>\<open>mlflow.set_experiment\<close> with the experiment id when
  \<open>experiment_id\<close> is set, otherwise with the experiment path when \<open>experiment_path\<close> is
  set, and passes on what the call answers. When neither is set it raises the
  \<^verbatim>\<open>RuntimeError\<close> of the configuration, and \<open>run\<close> ends with that error in the world it
  started in: nothing was called, neither the inference nor anything else.
\<close>

theorem experiment_selection:
  "(\<forall>i. experiment_id self = Some i \<longrightarrow>
      set_experiment self env w =
        (emit (SetExperimentId i) w,
         case mlflow_set_experiment_id env w i of Some err \<Rightarrow> Inl err | None \<Rightarrow> Inr ())) \<and>
   (\<forall>p. experiment_id self = None \<and> experiment_path self = Some p \<longrightarrow>
      set_experiment self env w =
        (emit (SetExperimentName p) w,
         case mlflow_set_experiment_name env w p of Some err \<Rightarrow> Inl err | None \<Rightarrow> Inr ())) \<and>
   (experiment_id self = None \<and> experiment_path self = None \<longrightarrow>
      set_experiment self env w =
        (w, Inl (RuntimeError ''MLflow experiment_id or experiment_path must be set in mlflow_params'')) \<and>
      run self env w =
        (w, Inl (RuntimeError ''MLflow experiment_id or experiment_path must be set in mlflow_params'')) \<and>
      new_events w (fst (run self env w)) = [])"
  by (simp add: set_experiment_def call_unit_def raise_def run_def and_then_def new_events_def)

theorem experiment_selection_witness:
  "experiment_id demo_deployment = Some 7 \<and>
   set_experiment demo_deployment demo_env demo_world =
     (emit (SetExperimentId 7) demo_world, Inr ()) \<and>
   experiment_id (demo_deployment\<lparr>experiment_id := None, experiment_path := Some ''/Shared/churn''\<rparr>) = None \<and>
   experiment_path (demo_deployment\<lparr>experiment_id := None, experiment_path := Some ''/Shared/churn''\<rparr>) =
     Some ''/Shared/churn'' \<and>
   set_experiment (demo_deployment\<lparr>experiment_id := None, experiment_path := Some ''/Shared/churn''\<rparr>)
       demo_env demo_world =
     (emit (SetExperimentName ''/Shared/churn'') demo_world, Inr ()) \<and>
   experiment_id (demo_deployment\<lparr>experiment_id := None\<rparr>) = None \<and>
   experiment_path (demo_deployment\<lparr>experiment_id := None\<rparr>) = None \<and>
   run (demo_deployment\<lparr>experiment_id := None\<rparr>) demo_env demo_world =
     (demo_world, Inl (RuntimeError ''MLflow experiment_id or experiment_path must be set in mlflow_params'')) \<and>
   new_events demo_world (fst (run (demo_deployment\<lparr>experiment_id := None\<rparr>) demo_env demo_world)) = []"
proof -
  let ?by_path = "demo_deployment\<lparr>experiment_id := None, experiment_path := Some ''/Shared/churn''\<rparr>"
  let ?neither = "demo_deployment\<lparr>experiment_id := None\<rparr>"
  have fields: "experiment_id demo_deployment = Some 7"
    "experiment_id ?by_path = None" "experiment_path ?by_path = Some ''/Shared/churn''"
    "experiment_id ?neither = None" "experiment_path ?neither = None"
    by (simp_all add: demo_deployment_def)
  have answers: "mlflow_set_experiment_id demo_env demo_world 7 = None"
    "mlflow_set_experiment_name demo_env demo_world ''/Shared/churn'' = None"
    by (simp_all add: demo_env_def)
  show ?thesis
    using experiment_selection [of demo_deployment demo_env demo_world]
      experiment_selection [of ?by_path demo_env demo_world]
      experiment_selection [of ?neither demo_env demo_world]
      fields answers
    by (simp add: new_events_def)
qed

text \<open>
  C10. With both \<open>experiment_id\<close> and \<open>experiment_path\<close> set, \<^verbatim>\<open>_set_experiment\<close>
  raises nothing of its own: it makes the one call
  \<^verbatim>\<open>mlflow.set_experiment(experiment_id=...)\<close> and its outcome is the outcome of that
  call, so it returns normally whenever the tracking store accepts the id. The experiment
  path is not read: any other value of \<open>experiment_path\<close>, also none, gives the same
  outcome, and no call by name is made.
\<close>

theorem both_experiment_fields_set:
  assumes "experiment_id self = Some i" and "experiment_path self = Some p"
  shows "set_experiment self env w =
       (emit (SetExperimentId i) w,
        case mlflow_set_experiment_id env w i of Some err \<Rightarrow> Inl err | None \<Rightarrow> Inr ()) \<and>
     (mlflow_set_experiment_id env w i = None \<longrightarrow> snd (set_experiment self env w) = Inr ()) \<and>
     new_events w (fst (set_experiment self env w)) = [SetExperimentId i] \<and>
     (\<forall>q. set_experiment (self\<lparr>experiment_path := q\<rparr>) env w = set_experiment self env w)"
  using assms by (simp add: set_experiment_def call_unit_def new_events_emit_only)

theorem both_experiment_fields_set_witness:
  "experiment_id (demo_deployment\<lparr>experiment_path := Some ''/Shared/churn''\<rparr>) = Some 7 \<and>
   experiment_path (demo_deployment\<lparr>experiment_path := Some ''/Shared/churn''\<rparr>) = Some ''/Shared/churn'' \<and>
   mlflow_set_experiment_id demo_env demo_world 7 = None \<and>
   set_experiment (demo_deployment\<lparr>experiment_path := Some ''/Shared/churn''\<rparr>) demo_env demo_world =
     (emit (SetExperimentId 7) demo_world, Inr ()) \<and>
   new_events demo_world
     (fst (set_experiment (demo_deployment\<lparr>experiment_path := Some ''/Shared/churn''\<rparr>) demo_env demo_world)) =
     [SetExperimentId 7] \<and>
   set_experiment (demo_deployment\<lparr>experiment_path := Some ''/Shared/churn''\<rparr>
                     \<lparr>experiment_path := None\<rparr>) demo_env demo_world =
     set_experiment (demo_deployment\<lparr>experiment_path := Some ''/Shared/churn''\<rparr>) demo_env demo_world"
proof -
  let ?both = "demo_deployment\<lparr>experiment_path := Some ''/Shared/churn''\<rparr>"
  have fields: "experiment_id ?both = Some 7" "experiment_path ?both = Some ''/Shared/churn''"
    by (simp_all add: demo_deployment_def)
  have answer: "mlflow_set_experiment_id demo_env demo_world 7 = None"
    by (simp add: demo_env_def)
  note both = both_experiment_fields_set [OF fields, of demo_env demo_world]
  have outcome: "set_experiment ?both demo_env demo_world = (emit (SetExperimentId 7) demo_world, Inr ())"
    using both answer by simp
  have calls: "new_events demo_world (fst (set_experiment ?both demo_env demo_world)) = [SetExperimentId 7]"
    using both by blast
  have unread: "set_experiment (?both\<lparr>experiment_path := None\<rparr>) demo_env demo_world =
      set_experiment ?both demo_env demo_world"
    using both by blast
  from fields answer outcome calls unread show ?thesis by blast
qed

section \<open>The outcomes of a run\<close>

lemma promotion_failed_lookup:
  "latest_version (registry w) (model_registry_name self) ''staging'' = None \<Longrightarrow>
     run_promotion_logic self env s p w =
       (emit (GetLatestVersions (model_registry_name self) [''staging'']) w,
        case lookup_fault env w (model_registry_name self) [''staging''] of
          Some err \<Rightarrow> Inl err | None \<Rightarrow> Inl IndexError)"
  by (simp add: run_promotion_logic_unfold Let_def split: option.splits)

lemma promotion_outcomes:
  "run_promotion_logic self env s p w = (w3, r) \<Longrightarrow>
     (events w3 = events w @ [GetLatestVersions (model_registry_name self) [''staging'']] \<and>
      registry w3 = registry w \<and>
      (latest_version (registry w) (model_registry_name self) ''staging'' = None \<longrightarrow> (\<exists>e. r = Inl e))) \<or>
     (\<exists>mv stage archive.
        latest_version (registry w) (model_registry_name self) ''staging'' = Some mv \<and>
        events w3 = events w @
          [GetLatestVersions (model_registry_name self) [''staging''],
           TransitionModelVersionStage (model_registry_name self) (mv_version mv) stage archive] \<and>
        (stage = ''archived'' \<and> \<not> archive \<or> stage = ''production'' \<and> archive) \<and>
        (registry w3 = registry w \<and> (\<exists>e. r = Inl e) \<or>
         registry w3 = transition_stage (registry w) (model_registry_name self) (mv_version mv) stage archive \<and>
         r = Inr ()))"
  by (auto simp add: run_promotion_logic_unfold Let_def transition_model_version_stage_def emit_def
      split: option.splits if_splits)

text \<open>
  What a run can be: it failed before the promotion step; or it reached the promotion step
  and made no transition; or it made one transition, of the most recent staging version.
\<close>

lemma run_outcomes:
  "(\<exists>e. snd (run self env w) = Inl e \<and> registry (fst (run self env w)) = registry w \<and>
        list_all (\<lambda>e. \<not> is_registry_call e) (new_events w (fst (run self env w)))) \<or>
   (\<exists>x d1 d2 s p status.
      new_events w (fst (run self env w)) =
        [x, StartRun ''Model Comparison'',
         RunBatch (get_model_uri_by_stage self ''staging'') (reference_data self),
         RunBatch (get_model_uri_by_stage self ''production'') (reference_data self),
         ToPandas, ToPandas,
         Evaluate ''staging_'', LogMetrics d1, Evaluate ''production_'', LogMetrics d2,
         GetLatestVersions (model_registry_name self) [''staging''],
         EndRun status] \<and>
      (x = SetExperimentId (the (experiment_id self)) \<or>
       x = SetExperimentName (the (experiment_path self))) \<and>
      d1 (''staging_'' @ comparison_metric self) = Some s \<and>
      d2 (''production_'' @ comparison_metric self) = Some p \<and>
      registry (fst (run self env w)) = registry w \<and>
      (latest_version (registry w) (model_registry_name self) ''staging'' = None \<longrightarrow>
         (\<exists>e. snd (run self env w) = Inl e))) \<or>
   (\<exists>x d1 d2 s p status mv stage archive.
      new_events w (fst (run self env w)) =
        [x, StartRun ''Model Comparison'',
         RunBatch (get_model_uri_by_stage self ''staging'') (reference_data self),
         RunBatch (get_model_uri_by_stage self ''production'') (reference_data self),
         ToPandas, ToPandas,
         Evaluate ''staging_'', LogMetrics d1, Evaluate ''production_'', LogMetrics d2,
         GetLatestVersions (model_registry_name self) [''staging''],
         TransitionModelVersionStage (model_registry_name self) (mv_version mv) stage archive,
         EndRun status] \<and>
      (x = SetExperimentId (the (experiment_id self)) \<or>
       x = SetExperimentName (the (experiment_path self))) \<and>
      d1 (''staging_'' @ comparison_metric self) = Some s \<and>
      d2 (''production_'' @ comparison_metric self) = Some p \<and>
      latest_version (registry w) (model_registry_name self) ''staging'' = Some mv \<and>
      (stage = ''archived'' \<and> \<not> archive \<or> stage = ''production'' \<and> archive) \<and>
      (registry (fst (run self env w)) = registry w \<and> (\<exists>e. snd (run self env w) = Inl e) \<or>
       registry (fst (run self env w)) =
         transition_stage (registry w) (model_registry_name self) (mv_version mv) stage archive \<and>
       snd (run self env w) = Inr ()))"
  (is "?failed \<or> ?quiet \<or> ?moved")
proof -
  consider (failed) ?failed
    | (reached) x d1 d2 s p w2 where
      "events w2 = events w @
        [x, StartRun ''Model Comparison'',
         RunBatch (get_model_uri_by_stage self ''staging'') (reference_data self),
         RunBatch (get_model_uri_by_stage self ''production'') (reference_data self),
         ToPandas, ToPandas,
         Evaluate ''staging_'', LogMetrics d1, Evaluate ''production_'', LogMetrics d2]"
      "x = SetExperimentId (the (experiment_id self)) \<or>
         x = SetExperimentName (the (experiment_path self))"
      "registry w2 = registry w"
      "d1 (''staging_'' @ comparison_metric self) = Some s"
      "d2 (''production_'' @ comparison_metric self) = Some p"
      "run self env w =
        (case run_promotion_logic self env s p w2 of
           (w3, Inl e) \<Rightarrow> (emit (EndRun FAILED) w3, Inl e)
         | (w3, Inr u) \<Rightarrow> (emit (EndRun FINISHED) w3, Inr u))"
    using run_shape [of self env w] by blast
  then show ?thesis
  proof cases
    case failed
    then show ?thesis by (rule disjI1)
  next
    case (reached x d1 d2 s p w2)
    note ev = reached(1) and x = reached(2) and reg = reached(3) and d1 = reached(4)
      and d2 = reached(5) and run_eq = reached(6)
    obtain w3 r where rpl: "run_promotion_logic self env s p w2 = (w3, r)"
      by (cases "run_promotion_logic self env s p w2")
    define status where "status = (case r of Inl e \<Rightarrow> FAILED | Inr u \<Rightarrow> FINISHED)"
    have run_is: "run self env w = (emit (EndRun status) w3, r)"
      using run_eq rpl by (simp add: status_def split: sum.splits)
    consider (quiet)
        "events w3 = events w2 @ [GetLatestVersions (model_registry_name self) [''staging'']]"
        "registry w3 = registry w2"
        "latest_version (registry w2) (model_registry_name self) ''staging'' = None \<longrightarrow> (\<exists>e. r = Inl e)"
      | (moved) mv stage archive where
        "latest_version (registry w2) (model_registry_name self) ''staging'' = Some mv"
        "events w3 = events w2 @
          [GetLatestVersions (model_registry_name self) [''staging''],
           TransitionModelVersionStage (model_registry_name self) (mv_version mv) stage archive]"
        "stage = ''archived'' \<and> \<not> archive \<or> stage = ''production'' \<and> archive"
        "registry w3 = registry w2 \<and> (\<exists>e. r = Inl e) \<or>
         registry w3 = transition_stage (registry w2) (model_registry_name self) (mv_version mv) stage archive \<and>
         r = Inr ()"
      using promotion_outcomes [OF rpl] by blast
    then show ?thesis
    proof cases
      case quiet
      note a = quiet
      have "new_events w (fst (run self env w)) =
        [x, StartRun ''Model Comparison'',
         RunBatch (get_model_uri_by_stage self ''staging'') (reference_data self),
         RunBatch (get_model_uri_by_stage self ''production'') (reference_data self),
         ToPandas, ToPandas,
         Evaluate ''staging_'', LogMetrics d1, Evaluate ''production_'', LogMetrics d2,
         GetLatestVersions (model_registry_name self) [''staging''],
         EndRun status]"
        using run_is a(1) ev by (simp add: new_events_def emit_def)
      moreover have "registry (fst (run self env w)) = registry w"
        using run_is a(2) reg by (simp add: emit_def)
      moreover have "latest_version (registry w) (model_registry_name self) ''staging'' = None \<longrightarrow>
         (\<exists>e. snd (run self env w) = Inl e)"
        using run_is a(3) reg by simp
      ultimately have ?quiet
        using x d1 d2
        by - (rule exI [of _ x], rule exI [of _ d1], rule exI [of _ d2], rule exI [of _ s],
              rule exI [of _ p], rule exI [of _ status], intro conjI, assumption+)
      then show ?thesis by (rule disjI2 [OF disjI1])
    next
      case (moved mv stage archive)
      note b = moved
      have "new_events w (fst (run self env w)) =
        [x, StartRun ''Model Comparison'',
         RunBatch (get_model_uri_by_stage self ''staging'') (reference_data self),
         RunBatch (get_model_uri_by_stage self ''production'') (reference_data self),
         ToPandas, ToPandas,
         Evaluate ''staging_'', LogMetrics d1, Evaluate ''production_'', LogMetrics d2,
         GetLatestVersions (model_registry_name self) [''staging''],
         TransitionModelVersionStage (model_registry_name self) (mv_version mv) stage archive,
         EndRun status]"
        using run_is b(2) ev by (simp add: new_events_def emit_def)
      moreover have "registry (fst (run self env w)) = registry w \<and> (\<exists>e. snd (run self env w) = Inl e) \<or>
         registry (fst (run self env w)) =
           transition_stage (registry w) (model_registry_name self) (mv_version mv) stage archive \<and>
         snd (run self env w) = Inr ()"
        using run_is b(4) reg by (auto simp add: emit_def)
      moreover have "latest_version (registry w) (model_registry_name self) ''staging'' = Some mv"
        using b(1) reg by simp
      ultimately have ?moved
        using x d1 d2 b(3)
        by - (rule exI [of _ x], rule exI [of _ d1], rule exI [of _ d2], rule exI [of _ s],
              rule exI [of _ p], rule exI [of _ status], rule exI [of _ mv],
              rule exI [of _ stage], rule exI [of _ archive], intro conjI, assumption+)
      then show ?thesis by (rule disjI2 [OF disjI2])
    qed
  qed
qed

section \<open>The demo run\<close>

text \<open>The run of the demo deployment, computed: the staging model scores higher and version 3 is promoted.\<close>

lemma demo_world_fields: "events demo_world = []" "registry demo_world = demo_registry"
  by (simp_all add: demo_world_def)

lemma demo_comparison_metrics:
  "comparison_metrics demo_deployment demo_env w =
     (w\<lparr>events := events w @
         [RunBatch ''models:/churn/staging'' ''ref'', RunBatch ''models:/churn/production'' ''ref'',
          ToPandas, ToPandas,
          Evaluate ''staging_'', LogMetrics (demo_metrics ''staging_''),
          Evaluate ''production_'', LogMetrics (demo_metrics ''production_'')]\<rparr>,
      Inr (Fin (85 / 100), Fin (80 / 100)))"
  by (simp add: metric_steps demo_deployment_def demo_env_def demo_frame_def
      get_model_uri_by_stage_def return_value_def emit_def demo_metrics_def)

lemma demo_run_from:
  assumes "latest_version (registry w) ''churn'' ''staging'' = Some mv"
  shows "run demo_deployment demo_env w =
     (w\<lparr>events := events w @
         [SetExperimentId 7, StartRun ''Model Comparison'',
          RunBatch ''models:/churn/staging'' ''ref'', RunBatch ''models:/churn/production'' ''ref'',
          ToPandas, ToPandas,
          Evaluate ''staging_'', LogMetrics (demo_metrics ''staging_''),
          Evaluate ''production_'', LogMetrics (demo_metrics ''production_''),
          GetLatestVersions ''churn'' [''staging''],
          TransitionModelVersionStage ''churn'' (mv_version mv) ''production'' True,
          EndRun FINISHED],
        registry := transition_stage (registry w) ''churn'' (mv_version mv) ''production'' True\<rparr>,
      Inr ())"
proof -
  have start: "set_experiment demo_deployment demo_env w' = (emit (SetExperimentId 7) w', Inr ())" for w'
    by (simp add: set_experiment_def call_unit_def demo_deployment_def demo_env_def)
  have opened: "mlflow_start_run demo_env w' ''Model Comparison'' = None" for w'
    by (simp add: demo_env_def)
  have name: "model_registry_name demo_deployment = ''churn''" "higher_is_better demo_deployment"
    by (simp_all add: demo_deployment_def)
  have faults: "lookup_fault demo_env w' n st = None" "transition_fault demo_env w' n v sg b = None"
    for w' n st v sg b
    by (simp_all add: demo_env_def)
  show ?thesis
    by (simp add: run_split and_then_def start opened with_start_run_unfold
        demo_comparison_metrics run_promotion_logic_unfold Let_def name faults float_gt_def
        transition_model_version_stage_def emit_def assms)
qed

lemma demo_run:
  "run demo_deployment demo_env demo_world =
     (\<lparr>events =
         [SetExperimentId 7, StartRun ''Model Comparison'',
          RunBatch ''models:/churn/staging'' ''ref'', RunBatch ''models:/churn/production'' ''ref'',
          ToPandas, ToPandas,
          Evaluate ''staging_'', LogMetrics (demo_metrics ''staging_''),
          Evaluate ''production_'', LogMetrics (demo_metrics ''production_''),
          GetLatestVersions ''churn'' [''staging''],
          TransitionModelVersionStage ''churn'' 3 ''production'' True,
          EndRun FINISHED],
       registry =
         [\<lparr>mv_name = ''churn'', mv_version = 1, current_stage = ''archived''\<rparr>,
          \<lparr>mv_name = ''churn'', mv_version = 2, current_stage = ''staging''\<rparr>,
          \<lparr>mv_name = ''churn'', mv_version = 3, current_stage = ''production''\<rparr>,
          \<lparr>mv_name = ''other'', mv_version = 1, current_stage = ''production''\<rparr>]\<rparr>,
      Inr ())"
proof -
  have "latest_version (registry demo_world) ''churn'' ''staging'' =
      Some \<lparr>mv_name = ''churn'', mv_version = 3, current_stage = ''staging''\<rparr>"
    by (simp add: demo_world_def demo_latest_staging)
  from demo_run_from [OF this] show ?thesis
    by (simp add: demo_world_def transition_stage_def transition_one_def demo_registry_def)
qed

lemma transition_is_registry_call: "is_transition e \<Longrightarrow> is_registry_call e"
  by (cases e) simp_all

lemma no_registry_call_no_transition:
  assumes "list_all (\<lambda>e. \<not> is_registry_call e) es"
  shows "filter is_transition es = []"
    and "TransitionModelVersionStage name ver stage archive \<notin> set es"
proof -
  from assms have none: "\<forall>e\<in>set es. \<not> is_registry_call e"
    by (simp add: list_all_iff)
  then show "filter is_transition es = []"
    by (auto simp add: filter_empty_conv dest: transition_is_registry_call)
  show "TransitionModelVersionStage name ver stage archive \<notin> set es"
  proof
    assume "TransitionModelVersionStage name ver stage archive \<in> set es"
    with none have "\<not> is_registry_call (TransitionModelVersionStage name ver stage archive)"
      by blast
    then show False by simp
  qed
qed

lemma run_cases [case_names failed quiet moved]:
  obtains (failed) e where
      "snd (run self env w) = Inl e"
      "registry (fst (run self env w)) = registry w"
      "list_all (\<lambda>e. \<not> is_registry_call e) (new_events w (fst (run self env w)))"
    | (quiet) x d1 d2 s p status where
      "new_events w (fst (run self env w)) =
        [x, StartRun ''Model Comparison'',
         RunBatch (get_model_uri_by_stage self ''staging'') (reference_data self),
         RunBatch (get_model_uri_by_stage self ''production'') (reference_data self),
         ToPandas, ToPandas,
         Evaluate ''staging_'', LogMetrics d1, Evaluate ''production_'', LogMetrics d2,
         GetLatestVersions (model_registry_name self) [''staging''],
         EndRun status]"
      "x = SetExperimentId (the (experiment_id self)) \<or>
       x = SetExperimentName (the (experiment_path self))"
      "d1 (''staging_'' @ comparison_metric self) = Some s"
      "d2 (''production_'' @ comparison_metric self) = Some p"
      "registry (fst (run self env w)) = registry w"
      "latest_version (registry w) (model_registry_name self) ''staging'' = None \<longrightarrow>
         (\<exists>e. snd (run self env w) = Inl e)"
    | (moved) x d1 d2 s p status mv stage archive where
      "new_events w (fst (run self env w)) =
        [x, StartRun ''Model Comparison'',
         RunBatch (get_model_uri_by_stage self ''staging'') (reference_data self),
         RunBatch (get_model_uri_by_stage self ''production'') (reference_data self),
         ToPandas, ToPandas,
         Evaluate ''staging_'', LogMetrics d1, Evaluate ''production_'', LogMetrics d2,
         GetLatestVersions (model_registry_name self) [''staging''],
         TransitionModelVersionStage (model_registry_name self) (mv_version mv) stage archive,
         EndRun status]"
      "x = SetExperimentId (the (experiment_id self)) \<or>
       x = SetExperimentName (the (experiment_path self))"
      "d1 (''staging_'' @ comparison_metric self) = Some s"
      "d2 (''production_'' @ comparison_metric self) = Some p"
      "latest_version (registry w) (model_registry_name self) ''staging'' = Some mv"
      "stage = ''archived'' \<and> \<not> archive \<or> stage = ''production'' \<and> archive"
      "registry (fst (run self env w)) = registry w \<and> (\<exists>e. snd (run self env w) = Inl e) \<or>
       registry (fst (run self env w)) =
         transition_stage (registry w) (model_registry_name self) (mv_version mv) stage archive \<and>
       snd (run self env w) = Inr ()"
  using run_outcomes [of self env w]
  apply (elim disjE)
    apply (elim exE conjE, rule failed, assumption+)
   apply (elim exE conjE, rule quiet, assumption+)
  apply (elim exE conjE, rule moved, assumption+)
  done

section \<open>The stage transition within a run\<close>

text \<open>
  C6. In every run the trace holds at most one call of
  \<^verbatim>\<open>transition_model_version_stage\<close>. When it holds one, the whole trace is: the call
  that sets the experiment, the start of the run, the two batch inferences, the two
  conversions, and for staging and then for production the evaluation and the logging of a
  metrics dictionary that holds the requested key; then the lookup of the staging version,
  the transition, and the end of the run. So the transition comes after both metrics are
  known, and nothing follows it but the closing of the run's scope.
\<close>

theorem transition_once_after_metrics:
  "length (filter is_transition (new_events w (fst (run self env w)))) \<le> 1 \<and>
   (\<forall>name ver stage archive.
      TransitionModelVersionStage name ver stage archive \<in> set (new_events w (fst (run self env w))) \<longrightarrow>
        (\<exists>x d1 d2 s p status.
           new_events w (fst (run self env w)) =
             [x, StartRun ''Model Comparison'',
              RunBatch (get_model_uri_by_stage self ''staging'') (reference_data self),
              RunBatch (get_model_uri_by_stage self ''production'') (reference_data self),
              ToPandas, ToPandas,
              Evaluate ''staging_'', LogMetrics d1, Evaluate ''production_'', LogMetrics d2,
              GetLatestVersions (model_registry_name self) [''staging''],
              TransitionModelVersionStage name ver stage archive,
              EndRun status] \<and>
           (x = SetExperimentId (the (experiment_id self)) \<or>
            x = SetExperimentName (the (experiment_path self))) \<and>
           d1 (''staging_'' @ comparison_metric self) = Some s \<and>
           d2 (''production_'' @ comparison_metric self) = Some p))"
  (is "?once \<and> ?last")
proof -
  let ?es = "new_events w (fst (run self env w))"
  show ?thesis
  proof (cases rule: run_cases [of self env w])
    case (failed e)
    from no_registry_call_no_transition [OF failed(3)] show ?thesis by simp
  next
    case (quiet x d1 d2 s p status)
    from quiet(2) have x: "\<not> is_transition x" "\<And>n v g a. x \<noteq> TransitionModelVersionStage n v g a"
      "\<And>n v g a. TransitionModelVersionStage n v g a \<noteq> x"
      by auto
    have ?once by (simp add: quiet(1) x)
    moreover have ?last by (simp add: quiet(1) x)
    ultimately show ?thesis ..
  next
    case (moved x d1 d2 s p status mv stage' archive')
    from moved(2) have x: "\<not> is_transition x" "\<And>n v g a. x \<noteq> TransitionModelVersionStage n v g a"
      "\<And>n v g a. TransitionModelVersionStage n v g a \<noteq> x"
      by auto
    have ?once by (simp add: moved(1) x)
    moreover have ?last
    proof (intro allI impI)
      fix name ver stage archive
      assume "TransitionModelVersionStage name ver stage archive \<in> set ?es"
      then have same: "TransitionModelVersionStage name ver stage archive =
          TransitionModelVersionStage (model_registry_name self) (mv_version mv) stage' archive'"
        by (simp add: moved(1) x)
      show "\<exists>x d1 d2 s p status.
           ?es =
             [x, StartRun ''Model Comparison'',
              RunBatch (get_model_uri_by_stage self ''staging'') (reference_data self),
              RunBatch (get_model_uri_by_stage self ''production'') (reference_data self),
              ToPandas, ToPandas,
              Evaluate ''staging_'', LogMetrics d1, Evaluate ''production_'', LogMetrics d2,
              GetLatestVersions (model_registry_name self) [''staging''],
              TransitionModelVersionStage name ver stage archive,
              EndRun status] \<and>
           (x = SetExperimentId (the (experiment_id self)) \<or>
            x = SetExperimentName (the (experiment_path self))) \<and>
           d1 (''staging_'' @ comparison_metric self) = Some s \<and>
           d2 (''production_'' @ comparison_metric self) = Some p"
        unfolding same
        using moved(1-4)
        by - (rule exI [of _ x], rule exI [of _ d1], rule exI [of _ d2], rule exI [of _ s],
              rule exI [of _ p], rule exI [of _ status], intro conjI, assumption+)
    qed
    ultimately show ?thesis ..
  qed
qed

text \<open>The demo run makes its one transition as the last call before the run is closed.\<close>

theorem transition_once_after_metrics_witness:
  "TransitionModelVersionStage ''churn'' 3 ''production'' True
     \<in> set (new_events demo_world (fst (run demo_deployment demo_env demo_world))) \<and>
   length (filter is_transition (new_events demo_world (fst (run demo_deployment demo_env demo_world)))) \<le> 1 \<and>
   new_events demo_world (fst (run demo_deployment demo_env demo_world)) =
     [SetExperimentId 7, StartRun ''Model Comparison'',
      RunBatch ''models:/churn/staging'' ''ref'', RunBatch ''models:/churn/production'' ''ref'',
      ToPandas, ToPandas,
      Evaluate ''staging_'', LogMetrics (demo_metrics ''staging_''),
      Evaluate ''production_'', LogMetrics (demo_metrics ''production_''),
      GetLatestVersions ''churn'' [''staging''],
      TransitionModelVersionStage ''churn'' 3 ''production'' True,
      EndRun FINISHED]"
proof -
  have trace: "new_events demo_world (fst (run demo_deployment demo_env demo_world)) =
     [SetExperimentId 7, StartRun ''Model Comparison'',
      RunBatch ''models:/churn/staging'' ''ref'', RunBatch ''models:/churn/production'' ''ref'',
      ToPandas, ToPandas,
      Evaluate ''staging_'', LogMetrics (demo_metrics ''staging_''),
      Evaluate ''production_'', LogMetrics (demo_metrics ''production_''),
      GetLatestVersions ''churn'' [''staging''],
      TransitionModelVersionStage ''churn'' 3 ''production'' True,
      EndRun FINISHED]"
    by (simp add: demo_run new_events_def demo_world_fields)
  have issued: "TransitionModelVersionStage ''churn'' 3 ''production'' True
     \<in> set (new_events demo_world (fst (run demo_deployment demo_env demo_world)))"
    by (simp add: trace)
  from transition_once_after_metrics [where w = demo_world and self = demo_deployment and env = demo_env]
  have once: "length (filter is_transition
      (new_events demo_world (fst (run demo_deployment demo_env demo_world)))) \<le> 1"
    by (rule conjunct1)
  from issued once trace show ?thesis by (intro conjI)
qed

lemma demo_run_without_staging:
  assumes "latest_version (registry w) ''churn'' ''staging'' = None"
  shows "run demo_deployment demo_env w =
     (w\<lparr>events := events w @
         [SetExperimentId 7, StartRun ''Model Comparison'',
          RunBatch ''models:/churn/staging'' ''ref'', RunBatch ''models:/churn/production'' ''ref'',
          ToPandas, ToPandas,
          Evaluate ''staging_'', LogMetrics (demo_metrics ''staging_''),
          Evaluate ''production_'', LogMetrics (demo_metrics ''production_''),
          GetLatestVersions ''churn'' [''staging''],
          EndRun FAILED]\<rparr>,
      Inl IndexError)"
proof -
  have start: "set_experiment demo_deployment demo_env w' = (emit (SetExperimentId 7) w', Inr ())" for w'
    by (simp add: set_experiment_def call_unit_def demo_deployment_def demo_env_def)
  have opened: "mlflow_start_run demo_env w' ''Model Comparison'' = None" for w'
    by (simp add: demo_env_def)
  have name: "model_registry_name demo_deployment = ''churn''"
    by (simp add: demo_deployment_def)
  have faults: "lookup_fault demo_env w' n st = None" for w' n st
    by (simp add: demo_env_def)
  show ?thesis
    by (simp add: run_split and_then_def start opened with_start_run_unfold
        demo_comparison_metrics run_promotion_logic_unfold Let_def name faults emit_def assms)
qed

section \<open>The version a run acts upon\<close>

text \<open>
  C5. Every stage transition a run issues names the configured registry model and the
  version of a model version that is in stage \<^verbatim>\<open>staging\<close> in the registry, and no staging
  version of that model has a greater version number: it is the most recent one. When the
  registry holds no staging version of the model, the run ends with an error, issues no
  transition and leaves the registry as it was; the promotion step itself then makes the
  lookup only and raises \<^verbatim>\<open>IndexError\<close> on element 0 of the empty answer (or whatever the
  registry raised on the lookup).
\<close>

theorem staging_version_acted_upon:
  "(\<forall>name ver stage archive.
      TransitionModelVersionStage name ver stage archive \<in> set (new_events w (fst (run self env w))) \<longrightarrow>
        name = model_registry_name self \<and>
        (\<exists>mv\<in>set (registry w). in_stage (model_registry_name self) ''staging'' mv \<and> mv_version mv = ver) \<and>
        (\<forall>mv\<in>set (registry w). in_stage (model_registry_name self) ''staging'' mv \<longrightarrow> mv_version mv \<le> ver)) \<and>
   ((\<forall>mv\<in>set (registry w). \<not> in_stage (model_registry_name self) ''staging'' mv) \<longrightarrow>
        (\<exists>e. snd (run self env w) = Inl e) \<and>
        filter is_transition (new_events w (fst (run self env w))) = [] \<and>
        registry (fst (run self env w)) = registry w) \<and>
   ((\<forall>mv\<in>set (registry w). \<not> in_stage (model_registry_name self) ''staging'' mv) \<longrightarrow>
        run_promotion_logic self env s p w =
          (emit (GetLatestVersions (model_registry_name self) [''staging'']) w,
           case lookup_fault env w (model_registry_name self) [''staging''] of
             Some err \<Rightarrow> Inl err | None \<Rightarrow> Inl IndexError))"
  (is "?acted \<and> ?none_run \<and> ?none_step")
proof -
  let ?es = "new_events w (fst (run self env w))"
  let ?n = "model_registry_name self"
  have step: ?none_step
    using promotion_failed_lookup [of w self env s p] by (simp add: latest_version_None)
  have "?acted \<and> ?none_run"
  proof (cases rule: run_cases [of self env w])
    case (failed e)
    note none = no_registry_call_no_transition [OF failed(3)]
    have ?acted using none(2) by blast
    moreover have ?none_run using none(1) failed(1,2) by blast
    ultimately show ?thesis ..
  next
    case (quiet x d1 d2 s' p' status)
    from quiet(2) have x: "\<not> is_transition x" "\<And>n v g a. x \<noteq> TransitionModelVersionStage n v g a"
      "\<And>n v g a. TransitionModelVersionStage n v g a \<noteq> x"
      by auto
    have ?acted by (simp add: quiet(1) x)
    moreover have ?none_run
    proof
      assume "\<forall>mv\<in>set (registry w). \<not> in_stage ?n ''staging'' mv"
      then have "latest_version (registry w) ?n ''staging'' = None"
        by (simp add: latest_version_None)
      with quiet(6) have "\<exists>e. snd (run self env w) = Inl e" by blast
      moreover have "filter is_transition ?es = []" by (simp add: quiet(1) x)
      ultimately show "(\<exists>e. snd (run self env w) = Inl e) \<and> filter is_transition ?es = [] \<and>
          registry (fst (run self env w)) = registry w"
        using quiet(5) by blast
    qed
    ultimately show ?thesis ..
  next
    case (moved x d1 d2 s' p' status mv stage' archive')
    from moved(2) have x: "\<not> is_transition x" "\<And>n v g a. x \<noteq> TransitionModelVersionStage n v g a"
      "\<And>n v g a. TransitionModelVersionStage n v g a \<noteq> x"
      by auto
    note latest = latest_version_Some [OF moved(5)]
    have ?acted
    proof (intro allI impI)
      fix name ver stage archive
      assume "TransitionModelVersionStage name ver stage archive \<in> set ?es"
      then have "name = ?n" "ver = mv_version mv"
        by (simp_all add: moved(1) x)
      with latest show "name = ?n \<and>
          (\<exists>mv\<in>set (registry w). in_stage ?n ''staging'' mv \<and> mv_version mv = ver) \<and>
          (\<forall>mv\<in>set (registry w). in_stage ?n ''staging'' mv \<longrightarrow> mv_version mv \<le> ver)"
        by blast
    qed
    moreover have ?none_run using latest by blast
    ultimately show ?thesis ..
  qed
  with step show ?thesis by blast
qed

text \<open>
  On the demo registry the promoted version is 3, the greater of the two staging versions;
  on a registry with no staging version the run fails with \<^verbatim>\<open>IndexError\<close>.
\<close>

theorem staging_version_acted_upon_witness:
  "TransitionModelVersionStage ''churn'' 3 ''production'' True
     \<in> set (new_events demo_world (fst (run demo_deployment demo_env demo_world))) \<and>
   (\<exists>mv\<in>set (registry demo_world). in_stage ''churn'' ''staging'' mv \<and> mv_version mv = 3) \<and>
   list_all (\<lambda>mv. \<not> in_stage ''churn'' ''staging'' mv)
     (registry (demo_world\<lparr>registry :=
        [\<lparr>mv_name = ''churn'', mv_version = 1, current_stage = ''production''\<rparr>]\<rparr>)) \<and>
   snd (run demo_deployment demo_env (demo_world\<lparr>registry :=
        [\<lparr>mv_name = ''churn'', mv_version = 1, current_stage = ''production''\<rparr>]\<rparr>)) = Inl IndexError \<and>
   filter is_transition
     (new_events (demo_world\<lparr>registry :=
        [\<lparr>mv_name = ''churn'', mv_version = 1, current_stage = ''production''\<rparr>]\<rparr>)
       (fst (run demo_deployment demo_env (demo_world\<lparr>registry :=
        [\<lparr>mv_name = ''churn'', mv_version = 1, current_stage = ''production''\<rparr>]\<rparr>)))) = [] \<and>
   registry (fst (run demo_deployment demo_env (demo_world\<lparr>registry :=
        [\<lparr>mv_name = ''churn'', mv_version = 1, current_stage = ''production''\<rparr>]\<rparr>))) =
     [\<lparr>mv_name = ''churn'', mv_version = 1, current_stage = ''production''\<rparr>] \<and>
   run_promotion_logic demo_deployment demo_env (Fin (85 / 100)) (Fin (80 / 100))
       (demo_world\<lparr>registry :=
          [\<lparr>mv_name = ''churn'', mv_version = 1, current_stage = ''production''\<rparr>]\<rparr>) =
     (emit (GetLatestVersions ''churn'' [''staging''])
        (demo_world\<lparr>registry :=
          [\<lparr>mv_name = ''churn'', mv_version = 1, current_stage = ''production''\<rparr>]\<rparr>),
      Inl IndexError)"
proof -
  let ?bare = "demo_world\<lparr>registry :=
        [\<lparr>mv_name = ''churn'', mv_version = 1, current_stage = ''production''\<rparr>]\<rparr>"
  have name: "model_registry_name demo_deployment = ''churn''"
    by (simp add: demo_deployment_def)
  have fault: "lookup_fault demo_env w' n st = None" for w' n st
    by (simp add: demo_env_def)
  have issued: "TransitionModelVersionStage ''churn'' 3 ''production'' True
     \<in> set (new_events demo_world (fst (run demo_deployment demo_env demo_world)))"
    by (simp add: demo_run new_events_def demo_world_fields)
  have none: "\<forall>mv\<in>set (registry ?bare). \<not> in_stage (model_registry_name demo_deployment) ''staging'' mv"
    by (simp add: name in_stage_def)
  then have latest: "latest_version (registry ?bare) ''churn'' ''staging'' = None"
    by (simp add: latest_version_None name)
  note fact = staging_version_acted_upon [where self = demo_deployment and env = demo_env
      and s = "Fin (85 / 100)" and p = "Fin (80 / 100)"]
  from fact [where w = demo_world] issued
  have acted: "\<exists>mv\<in>set (registry demo_world). in_stage ''churn'' ''staging'' mv \<and> mv_version mv = 3"
    unfolding name by blast
  from fact [where w = ?bare] none
  have quiet: "filter is_transition
       (new_events ?bare (fst (run demo_deployment demo_env ?bare))) = []"
    and kept: "registry (fst (run demo_deployment demo_env ?bare)) = registry ?bare"
    and step: "run_promotion_logic demo_deployment demo_env (Fin (85 / 100)) (Fin (80 / 100)) ?bare =
          (emit (GetLatestVersions (model_registry_name demo_deployment) [''staging'']) ?bare,
           case lookup_fault demo_env ?bare (model_registry_name demo_deployment) [''staging''] of
             Some err \<Rightarrow> Inl err | None \<Rightarrow> Inl IndexError)"
    by blast+
  have failed: "snd (run demo_deployment demo_env ?bare) = Inl IndexError"
    unfolding demo_run_without_staging [OF latest] by simp
  have absent: "list_all (\<lambda>mv. \<not> in_stage ''churn'' ''staging'' mv) (registry ?bare)"
    by (simp add: in_stage_def)
  from issued acted absent failed quiet kept step show ?thesis
    by (simp add: name fault)
qed

section \<open>Archiving the candidate\<close>

lemma archive_transition_frame:
  assumes "i < length reg"
    and "mv_name (reg ! i) \<noteq> name \<or> mv_version (reg ! i) \<noteq> ver"
  shows "transition_stage reg name ver ''archived'' False ! i = reg ! i"
  using assms by (auto simp add: transition_stage_def transition_one_def)

lemma promotion_archive_branch:
  assumes "lookup_fault env w (model_registry_name self) [''staging''] = None"
    and "latest_version (registry w) (model_registry_name self) ''staging'' = Some mv"
    and "higher_is_better self \<and> float_le s p \<or> \<not> higher_is_better self \<and> float_ge s p"
  shows "run_promotion_logic self env s p w =
      transition_model_version_stage env (model_registry_name self) (mv_version mv) ''archived'' False
        (emit (GetLatestVersions (model_registry_name self) [''staging'']) w)"
  using assms by (auto simp add: run_promotion_logic_unfold Let_def)

lemma archive_existing_only_on_promotion:
  assumes "TransitionModelVersionStage name ver stage True
      \<in> set (new_events w (fst (run_promotion_logic self env s p w)))"
  shows "stage = ''production'' \<and>
      (higher_is_better self \<and> float_gt s p \<or> \<not> higher_is_better self \<and> float_lt s p)"
  using assms
  by (auto simp add: run_promotion_logic_unfold Let_def new_events_transition_after_lookup
      new_events_emit_only float_gt_def float_ge_def split: option.splits if_splits)

text \<open>
  C9. When the decision is to archive (staging \<open>\<le>\<close> production with \<open>higher_is_better\<close>,
  staging \<open>\<ge>\<close> production without), the promotion logic issues, after the lookup, the one
  call that moves the staging candidate to \<^verbatim>\<open>archived\<close>, with
  \<^verbatim>\<open>archive_existing_versions\<close> left at its default False. Every registry entry that is
  not that version of that model is the same after the call as before, the production
  version among them. And a transition that asks to archive existing versions is only ever
  issued by a promoting branch, with stage \<^verbatim>\<open>production\<close>.
\<close>

theorem archive_leaves_other_versions:
  "(lookup_fault env w (model_registry_name self) [''staging''] = None \<longrightarrow>
    latest_version (registry w) (model_registry_name self) ''staging'' = Some mv \<longrightarrow>
    (higher_is_better self \<and> float_le s p \<or> \<not> higher_is_better self \<and> float_ge s p) \<longrightarrow>
      new_events w (fst (run_promotion_logic self env s p w)) =
        [GetLatestVersions (model_registry_name self) [''staging''],
         TransitionModelVersionStage (model_registry_name self) (mv_version mv) ''archived'' False] \<and>
      length (registry (fst (run_promotion_logic self env s p w))) = length (registry w) \<and>
      (\<forall>i<length (registry w).
         mv_name (registry w ! i) \<noteq> model_registry_name self \<or>
         mv_version (registry w ! i) \<noteq> mv_version mv \<longrightarrow>
           registry (fst (run_promotion_logic self env s p w)) ! i = registry w ! i)) \<and>
   (\<forall>name ver stage.
      TransitionModelVersionStage name ver stage True
        \<in> set (new_events w (fst (run_promotion_logic self env s p w))) \<longrightarrow>
      stage = ''production'' \<and>
      (higher_is_better self \<and> float_gt s p \<or> \<not> higher_is_better self \<and> float_lt s p))"
  (is "?archive \<and> ?only")
proof
  show ?only
    using archive_existing_only_on_promotion [of _ _ _ w self env s p] by blast
  show ?archive
  proof (intro impI)
    assume a: "lookup_fault env w (model_registry_name self) [''staging''] = None"
      "latest_version (registry w) (model_registry_name self) ''staging'' = Some mv"
      "higher_is_better self \<and> float_le s p \<or> \<not> higher_is_better self \<and> float_ge s p"
    note branch = promotion_archive_branch [OF a]
    have calls: "new_events w (fst (run_promotion_logic self env s p w)) =
        [GetLatestVersions (model_registry_name self) [''staging''],
         TransitionModelVersionStage (model_registry_name self) (mv_version mv) ''archived'' False]"
      by (simp add: branch new_events_transition_after_lookup)
    have reg: "registry (fst (run_promotion_logic self env s p w)) = registry w \<or>
        registry (fst (run_promotion_logic self env s p w)) =
          transition_stage (registry w) (model_registry_name self) (mv_version mv) ''archived'' False"
      by (simp add: branch transition_model_version_stage_def Let_def emit_def split: option.splits)
    have len: "length (registry (fst (run_promotion_logic self env s p w))) = length (registry w)"
      using reg by (auto simp add: transition_stage_def)
    have frame: "\<forall>i<length (registry w).
         mv_name (registry w ! i) \<noteq> model_registry_name self \<or>
         mv_version (registry w ! i) \<noteq> mv_version mv \<longrightarrow>
           registry (fst (run_promotion_logic self env s p w)) ! i = registry w ! i"
      using reg archive_transition_frame [of _ "registry w" "model_registry_name self" "mv_version mv"]
      by auto
    from calls len frame show "new_events w (fst (run_promotion_logic self env s p w)) =
        [GetLatestVersions (model_registry_name self) [''staging''],
         TransitionModelVersionStage (model_registry_name self) (mv_version mv) ''archived'' False] \<and>
      length (registry (fst (run_promotion_logic self env s p w))) = length (registry w) \<and>
      (\<forall>i<length (registry w).
         mv_name (registry w ! i) \<noteq> model_registry_name self \<or>
         mv_version (registry w ! i) \<noteq> mv_version mv \<longrightarrow>
           registry (fst (run_promotion_logic self env s p w)) ! i = registry w ! i)"
      by (intro conjI)
  qed
qed

text \<open>Archiving version 3 on the demo registry leaves version 1 in production.\<close>

theorem archive_leaves_other_versions_witness:
  "lookup_fault demo_env demo_world ''churn'' [''staging''] = None \<and>
   latest_version (registry demo_world) ''churn'' ''staging'' =
     Some \<lparr>mv_name = ''churn'', mv_version = 3, current_stage = ''staging''\<rparr> \<and>
   higher_is_better demo_deployment \<and>
   float_le (Fin (80 / 100)) (Fin (85 / 100)) \<and>
   new_events demo_world
     (fst (run_promotion_logic demo_deployment demo_env (Fin (80 / 100)) (Fin (85 / 100)) demo_world)) =
     [GetLatestVersions ''churn'' [''staging''],
      TransitionModelVersionStage ''churn'' 3 ''archived'' False] \<and>
   registry (fst (run_promotion_logic demo_deployment demo_env (Fin (80 / 100)) (Fin (85 / 100)) demo_world)) ! 0 =
     \<lparr>mv_name = ''churn'', mv_version = 1, current_stage = ''production''\<rparr> \<and>
   registry (fst (run_promotion_logic demo_deployment demo_env (Fin (80 / 100)) (Fin (85 / 100)) demo_world)) =
     [\<lparr>mv_name = ''churn'', mv_version = 1, current_stage = ''production''\<rparr>,
      \<lparr>mv_name = ''churn'', mv_version = 2, current_stage = ''staging''\<rparr>,
      \<lparr>mv_name = ''churn'', mv_version = 3, current_stage = ''archived''\<rparr>,
      \<lparr>mv_name = ''other'', mv_version = 1, current_stage = ''production''\<rparr>] \<and>
   TransitionModelVersionStage ''churn'' 3 ''production'' True
     \<in> set (new_events demo_world
         (fst (run_promotion_logic demo_deployment demo_env (Fin (85 / 100)) (Fin (80 / 100)) demo_world))) \<and>
   float_gt (Fin (85 / 100)) (Fin (80 / 100))"
proof -
  let ?mv = "\<lparr>mv_name = ''churn'', mv_version = 3, current_stage = ''staging''\<rparr>"
  let ?after = "fst (run_promotion_logic demo_deployment demo_env (Fin (80 / 100)) (Fin (85 / 100)) demo_world)"
  have name: "model_registry_name demo_deployment = ''churn''" and flag: "higher_is_better demo_deployment"
    by (simp_all add: demo_deployment_def)
  have fault: "lookup_fault demo_env w' n st = None" "transition_fault demo_env w' n v sg b = None"
    for w' n st v sg b
    by (simp_all add: demo_env_def)
  have latest: "latest_version (registry demo_world) ''churn'' ''staging'' = Some ?mv"
    by (simp add: demo_world_fields demo_latest_staging)
  have le: "float_le (Fin (80 / 100)) (Fin (85 / 100))" and gt: "float_gt (Fin (85 / 100)) (Fin (80 / 100))"
    by (simp_all add: float_gt_def)
  note fact = archive_leaves_other_versions [where self = demo_deployment and env = demo_env
      and w = demo_world and mv = ?mv]
  from fact [where s = "Fin (80 / 100)" and p = "Fin (85 / 100)"] fault(1) latest flag le
  have calls: "new_events demo_world ?after =
      [GetLatestVersions ''churn'' [''staging''], TransitionModelVersionStage ''churn'' 3 ''archived'' False]"
    and frame: "\<forall>i<length (registry demo_world).
         mv_name (registry demo_world ! i) \<noteq> ''churn'' \<or> mv_version (registry demo_world ! i) \<noteq> 3 \<longrightarrow>
           registry ?after ! i = registry demo_world ! i"
    by (simp_all add: name)
  from frame have first: "registry ?after ! 0 =
      \<lparr>mv_name = ''churn'', mv_version = 1, current_stage = ''production''\<rparr>"
    by (simp add: demo_world_fields demo_registry_def)
  have whole: "registry ?after =
     [\<lparr>mv_name = ''churn'', mv_version = 1, current_stage = ''production''\<rparr>,
      \<lparr>mv_name = ''churn'', mv_version = 2, current_stage = ''staging''\<rparr>,
      \<lparr>mv_name = ''churn'', mv_version = 3, current_stage = ''archived''\<rparr>,
      \<lparr>mv_name = ''other'', mv_version = 1, current_stage = ''production''\<rparr>]"
  proof -
    have "registry ?after = transition_stage demo_registry ''churn'' 3 ''archived'' False"
      by (simp add: run_promotion_logic_unfold Let_def name flag fault demo_latest_staging
          transition_model_version_stage_def emit_def demo_world_fields)
    then show ?thesis
      by (simp add: transition_stage_def transition_one_def demo_registry_def)
  qed
  have promoted: "TransitionModelVersionStage ''churn'' 3 ''production'' True
     \<in> set (new_events demo_world
         (fst (run_promotion_logic demo_deployment demo_env (Fin (85 / 100)) (Fin (80 / 100)) demo_world)))"
    by (simp add: run_promotion_logic_unfold Let_def name flag fault latest float_gt_def
        new_events_transition_after_lookup)
  from fault(1) latest flag le calls first whole promoted gt show ?thesis
    by (intro conjI)
qed

section \<open>The stage transitions a run can cause\<close>

text \<open>
  What a transition does to one registry entry, when the registry holds each version of a
  model once: the entry stays as it is, or it is the staging candidate and takes the new
  stage, or the candidate is promoted and the entry is another version of the model in
  production, which is archived.
\<close>

lemma same_key_same_entry:
  assumes "distinct (map (\<lambda>mv. (mv_name mv, mv_version mv)) reg)"
    and "mv \<in> set reg" and "i < length reg"
    and "mv_name (reg ! i) = mv_name mv" and "mv_version (reg ! i) = mv_version mv"
  shows "reg ! i = mv"
proof -
  from assms(1) have "inj_on (\<lambda>mv. (mv_name mv, mv_version mv)) (set reg)"
    by (simp add: distinct_map)
  moreover have "reg ! i \<in> set reg" using assms(3) by simp
  ultimately show ?thesis using assms(2,4,5) by (auto dest: inj_onD)
qed

lemma transition_stage_entry:
  assumes "distinct (map (\<lambda>mv. (mv_name mv, mv_version mv)) reg)"
    and "latest_version reg name ''staging'' = Some mv"
    and "stage = ''archived'' \<and> \<not> archive \<or> stage = ''production'' \<and> archive"
    and "i < length reg"
  shows "transition_stage reg name (mv_version mv) stage archive ! i = reg ! i \<or>
     (reg ! i = mv \<and> current_stage (reg ! i) = ''staging'' \<and>
      transition_stage reg name (mv_version mv) stage archive ! i = (reg ! i)\<lparr>current_stage := stage\<rparr>) \<or>
     (stage = ''production'' \<and> mv_name (reg ! i) = name \<and> mv_version (reg ! i) \<noteq> mv_version mv \<and>
      current_stage (reg ! i) = ''production'' \<and>
      transition_stage reg name (mv_version mv) stage archive ! i = (reg ! i)\<lparr>current_stage := ''archived''\<rparr>)"
proof -
  note latest = latest_version_Some [OF assms(2)]
  from latest have mv: "mv \<in> set reg" "mv_name mv = name" "current_stage mv = ''staging''"
    by (simp_all add: in_stage_def)
  have nth: "transition_stage reg name (mv_version mv) stage archive ! i =
      transition_one name (mv_version mv) stage archive (reg ! i)"
    using assms(4) by (simp add: transition_stage_def)
  show ?thesis
  proof (cases "mv_name (reg ! i) = name \<and> mv_version (reg ! i) = mv_version mv")
    case True
    then have "reg ! i = mv"
      using same_key_same_entry [OF assms(1) mv(1) assms(4)] mv(2) by simp
    then show ?thesis
      using mv nth by (simp add: transition_one_def)
  next
    case False
    then show ?thesis
      using nth assms(3) by (auto simp add: transition_one_def)
  qed
qed

text \<open>
  C7. In a registry that holds each version of a model once, a run issues at most one
  transition, and it is either to \<^verbatim>\<open>archived\<close> without archiving existing versions or to
  \<^verbatim>\<open>production\<close> with it. Every registry entry is, after the run, what it was before, or
  it was in \<^verbatim>\<open>staging\<close> and is now \<^verbatim>\<open>archived\<close> (the run issued that transition for
  it), or it was in \<^verbatim>\<open>staging\<close> and is now in \<^verbatim>\<open>production\<close> (the run issued that
  transition for it), or it was in \<^verbatim>\<open>production\<close> and is now \<^verbatim>\<open>archived\<close> (the run
  promoted another version). No entry moves into \<^verbatim>\<open>staging\<close>, and since there is at most
  one transition the candidate is not both archived and promoted.
\<close>

theorem reachable_stage_transitions:
  assumes "distinct (map (\<lambda>mv. (mv_name mv, mv_version mv)) (registry w))"
  shows "length (filter is_transition (new_events w (fst (run self env w)))) \<le> 1 \<and>
    (\<forall>name ver stage archive.
       TransitionModelVersionStage name ver stage archive \<in> set (new_events w (fst (run self env w))) \<longrightarrow>
         name = model_registry_name self \<and>
         (stage = ''archived'' \<and> \<not> archive \<or> stage = ''production'' \<and> archive)) \<and>
    length (registry (fst (run self env w))) = length (registry w) \<and>
    (\<forall>i<length (registry w).
       registry (fst (run self env w)) ! i = registry w ! i \<or>
       (current_stage (registry w ! i) = ''staging'' \<and>
        registry (fst (run self env w)) ! i = (registry w ! i)\<lparr>current_stage := ''archived''\<rparr> \<and>
        TransitionModelVersionStage (model_registry_name self) (mv_version (registry w ! i)) ''archived'' False
          \<in> set (new_events w (fst (run self env w)))) \<or>
       (current_stage (registry w ! i) = ''staging'' \<and>
        registry (fst (run self env w)) ! i = (registry w ! i)\<lparr>current_stage := ''production''\<rparr> \<and>
        TransitionModelVersionStage (model_registry_name self) (mv_version (registry w ! i)) ''production'' True
          \<in> set (new_events w (fst (run self env w)))) \<or>
       (current_stage (registry w ! i) = ''production'' \<and>
        registry (fst (run self env w)) ! i = (registry w ! i)\<lparr>current_stage := ''archived''\<rparr> \<and>
        (\<exists>ver. ver \<noteq> mv_version (registry w ! i) \<and>
           TransitionModelVersionStage (model_registry_name self) ver ''production'' True
             \<in> set (new_events w (fst (run self env w))))))"
  (is "?once \<and> ?kinds \<and> ?len \<and> ?entries")
proof (cases rule: run_cases [of self env w])
  case (failed e)
  note none = no_registry_call_no_transition [OF failed(3)]
  have ?once using none(1) by simp
  moreover have ?kinds using none(2) by blast
  moreover have ?len using failed(2) by simp
  moreover have ?entries using failed(2) by simp
  ultimately show ?thesis by (intro conjI)
next
  case (quiet x d1 d2 s p status)
  from quiet(2) have x: "\<not> is_transition x" "\<And>n v g a. x \<noteq> TransitionModelVersionStage n v g a"
    "\<And>n v g a. TransitionModelVersionStage n v g a \<noteq> x"
    by auto
  have ?once by (simp add: quiet(1) x)
  moreover have ?kinds by (simp add: quiet(1) x)
  moreover have ?len using quiet(5) by simp
  moreover have ?entries using quiet(5) by simp
  ultimately show ?thesis by (intro conjI)
next
  case (moved x d1 d2 s p status mv stage' archive')
  let ?es = "new_events w (fst (run self env w))"
  let ?n = "model_registry_name self"
  from moved(2) have x: "\<not> is_transition x" "\<And>n v g a. x \<noteq> TransitionModelVersionStage n v g a"
    "\<And>n v g a. TransitionModelVersionStage n v g a \<noteq> x"
    by auto
  have issued: "TransitionModelVersionStage ?n (mv_version mv) stage' archive' \<in> set ?es"
    by (simp add: moved(1))
  have only: "TransitionModelVersionStage name ver stage archive \<in> set ?es \<Longrightarrow>
      name = ?n \<and> ver = mv_version mv \<and> stage = stage' \<and> archive = archive'"
    for name ver stage archive
    by (simp add: moved(1) x)
  have ?once by (simp add: moved(1) x)
  moreover have ?kinds using only moved(6) by blast
  moreover have ?len using moved(7) by (auto simp add: transition_stage_def)
  moreover have ?entries
  proof (intro allI impI)
    fix i assume i: "i < length (registry w)"
    let ?goal = "registry (fst (run self env w)) ! i = registry w ! i \<or>
       (current_stage (registry w ! i) = ''staging'' \<and>
        registry (fst (run self env w)) ! i = (registry w ! i)\<lparr>current_stage := ''archived''\<rparr> \<and>
        TransitionModelVersionStage ?n (mv_version (registry w ! i)) ''archived'' False \<in> set ?es) \<or>
       (current_stage (registry w ! i) = ''staging'' \<and>
        registry (fst (run self env w)) ! i = (registry w ! i)\<lparr>current_stage := ''production''\<rparr> \<and>
        TransitionModelVersionStage ?n (mv_version (registry w ! i)) ''production'' True \<in> set ?es) \<or>
       (current_stage (registry w ! i) = ''production'' \<and>
        registry (fst (run self env w)) ! i = (registry w ! i)\<lparr>current_stage := ''archived''\<rparr> \<and>
        (\<exists>ver. ver \<noteq> mv_version (registry w ! i) \<and>
           TransitionModelVersionStage ?n ver ''production'' True \<in> set ?es))"
    from moved(7) show ?goal
    proof
      assume "registry (fst (run self env w)) = registry w \<and> (\<exists>e. snd (run self env w) = Inl e)"
      then show ?goal by simp
    next
      assume "registry (fst (run self env w)) =
          transition_stage (registry w) ?n (mv_version mv) stage' archive' \<and> snd (run self env w) = Inr ()"
      then have after: "registry (fst (run self env w)) ! i =
          transition_stage (registry w) ?n (mv_version mv) stage' archive' ! i"
        by simp
      from transition_stage_entry [OF assms moved(5) moved(6) i]
      show ?goal
      proof (elim disjE conjE)
        assume "transition_stage (registry w) ?n (mv_version mv) stage' archive' ! i = registry w ! i"
        with after show ?goal by simp
      next
        assume c: "registry w ! i = mv" "current_stage (registry w ! i) = ''staging''"
          "transition_stage (registry w) ?n (mv_version mv) stage' archive' ! i =
             (registry w ! i)\<lparr>current_stage := stage'\<rparr>"
        from moved(6) show ?goal
        proof
          assume "stage' = ''archived'' \<and> \<not> archive'"
          with c after issued show ?goal by simp
        next
          assume "stage' = ''production'' \<and> archive'"
          with c after issued show ?goal by simp
        qed
      next
        assume c: "stage' = ''production''" "mv_name (registry w ! i) = ?n"
          "mv_version (registry w ! i) \<noteq> mv_version mv"
          "current_stage (registry w ! i) = ''production''"
          "transition_stage (registry w) ?n (mv_version mv) stage' archive' ! i =
             (registry w ! i)\<lparr>current_stage := ''archived''\<rparr>"
        from moved(6) c(1) have "archive'" by simp
        with issued c(1) have "TransitionModelVersionStage ?n (mv_version mv) ''production'' True \<in> set ?es"
          by simp
        with c(3) have "\<exists>ver. ver \<noteq> mv_version (registry w ! i) \<and>
           TransitionModelVersionStage ?n ver ''production'' True \<in> set ?es"
          by (intro exI [of _ "mv_version mv"]) simp
        with c(4,5) after show ?goal by simp
      qed
    qed
  qed
  ultimately show ?thesis by (intro conjI)
qed

text \<open>The demo run: version 3 goes from staging to production, version 1 from production to archived.\<close>

theorem reachable_stage_transitions_witness:
  "distinct (map (\<lambda>mv. (mv_name mv, mv_version mv)) (registry demo_world)) \<and>
   length (filter is_transition (new_events demo_world (fst (run demo_deployment demo_env demo_world)))) \<le> 1 \<and>
   length (registry (fst (run demo_deployment demo_env demo_world))) = length (registry demo_world) \<and>
   registry demo_world =
     [\<lparr>mv_name = ''churn'', mv_version = 1, current_stage = ''production''\<rparr>,
      \<lparr>mv_name = ''churn'', mv_version = 2, current_stage = ''staging''\<rparr>,
      \<lparr>mv_name = ''churn'', mv_version = 3, current_stage = ''staging''\<rparr>,
      \<lparr>mv_name = ''other'', mv_version = 1, current_stage = ''production''\<rparr>] \<and>
   registry (fst (run demo_deployment demo_env demo_world)) =
     [\<lparr>mv_name = ''churn'', mv_version = 1, current_stage = ''archived''\<rparr>,
      \<lparr>mv_name = ''churn'', mv_version = 2, current_stage = ''staging''\<rparr>,
      \<lparr>mv_name = ''churn'', mv_version = 3, current_stage = ''production''\<rparr>,
      \<lparr>mv_name = ''other'', mv_version = 1, current_stage = ''production''\<rparr>]"
proof -
  have keys: "distinct (map (\<lambda>mv. (mv_name mv, mv_version mv)) (registry demo_world))"
    by (simp add: demo_world_fields demo_registry_def)
  note fact = reachable_stage_transitions [OF keys, where self = demo_deployment and env = demo_env]
  from fact have once: "length (filter is_transition
      (new_events demo_world (fst (run demo_deployment demo_env demo_world)))) \<le> 1"
    by (rule conjunct1)
  from fact have len: "length (registry (fst (run demo_deployment demo_env demo_world))) =
      length (registry demo_world)"
    by (elim conjE)
  have before: "registry demo_world =
     [\<lparr>mv_name = ''churn'', mv_version = 1, current_stage = ''production''\<rparr>,
      \<lparr>mv_name = ''churn'', mv_version = 2, current_stage = ''staging''\<rparr>,
      \<lparr>mv_name = ''churn'', mv_version = 3, current_stage = ''staging''\<rparr>,
      \<lparr>mv_name = ''other'', mv_version = 1, current_stage = ''production''\<rparr>]"
    by (simp add: demo_world_fields demo_registry_def)
  have after: "registry (fst (run demo_deployment demo_env demo_world)) =
     [\<lparr>mv_name = ''churn'', mv_version = 1, current_stage = ''archived''\<rparr>,
      \<lparr>mv_name = ''churn'', mv_version = 2, current_stage = ''staging''\<rparr>,
      \<lparr>mv_name = ''churn'', mv_version = 3, current_stage = ''production''\<rparr>,
      \<lparr>mv_name = ''other'', mv_version = 1, current_stage = ''production''\<rparr>]"
    by (simp add: demo_run)
  from keys once len before after show ?thesis by (intro conjI)
qed

section \<open>The scope of the tracking run\<close>

text \<open>The statements inside the scope only add calls to the trace, none of them a start or an end of a run.\<close>

lemma promotion_appends:
  "\<exists>es. events (fst (run_promotion_logic self env s p w)) = events w @ es \<and>
     list_all (\<lambda>e. \<not> is_scope_event e) es"
proof -
  obtain w3 r where rpl: "run_promotion_logic self env s p w = (w3, r)"
    by (cases "run_promotion_logic self env s p w")
  from promotion_outcomes [OF rpl] show ?thesis
    unfolding rpl by auto
qed

lemma comparison_metrics_appends:
  "\<exists>es. events (fst (comparison_metrics self env w)) = events w @ es \<and>
     list_all (\<lambda>e. \<not> is_scope_event e) es"
proof -
  obtain w2 r where cm: "comparison_metrics self env w = (w2, r)"
    by (cases "comparison_metrics self env w")
  show ?thesis
  proof (cases r)
    case (Inl e)
    from comparison_metrics_failed [OF cm [unfolded Inl]] show ?thesis
      unfolding cm by (auto simp add: list_all_iff)
  next
    case (Inr sp)
    obtain s p where sp: "sp = (s, p)" by (cases sp)
    from comparison_metrics_returned [OF cm [unfolded Inr sp]] show ?thesis
      unfolding cm by auto
  qed
qed

lemma run_body_appends:
  "\<exists>es. events (fst (and_then (comparison_metrics self env)
        (\<lambda>(s, p). run_promotion_logic self env s p) w)) = events w @ es \<and>
     list_all (\<lambda>e. \<not> is_scope_event e) es"
proof -
  obtain w2 r where cm: "comparison_metrics self env w = (w2, r)"
    by (cases "comparison_metrics self env w")
  from comparison_metrics_appends [of self env w] cm
  obtain es1 where es1: "events w2 = events w @ es1" "list_all (\<lambda>e. \<not> is_scope_event e) es1"
    by auto
  show ?thesis
  proof (cases r)
    case (Inl e)
    then show ?thesis using cm es1 by (simp add: and_then_def)
  next
    case (Inr sp)
    obtain s p where sp: "sp = (s, p)" by (cases sp)
    from promotion_appends [of self env s p w2]
    obtain es2 where es2: "events (fst (run_promotion_logic self env s p w2)) = events w2 @ es2"
      "list_all (\<lambda>e. \<not> is_scope_event e) es2"
      by blast
    have "events (fst (and_then (comparison_metrics self env)
        (\<lambda>(s, p). run_promotion_logic self env s p) w)) = events w @ (es1 @ es2)"
      using cm Inr sp es1(1) es2(1) by (simp add: and_then_def)
    moreover have "list_all (\<lambda>e. \<not> is_scope_event e) (es1 @ es2)"
      using es1(2) es2(2) by simp
    ultimately show ?thesis by blast
  qed
qed

text \<open>
  C8. Once \<^verbatim>\<open>_set_experiment\<close> has returned and \<^verbatim>\<open>mlflow.start_run\<close> has opened the
  run, the trace of \<open>run\<close> from there on is: the start of the run, calls of the body, and
  last the end of the run, with status FAILED exactly when \<open>run\<close> ends with an error and
  FINISHED when it returns. This holds for every outcome of every collaborator, so on
  every exit path; when a step raised, the run is already ended in the world that \<open>run\<close>
  hands back together with the error.
\<close>

theorem run_scope_closed:
  assumes "set_experiment self env w = (w0, Inr ())"
    and "mlflow_start_run env w0 ''Model Comparison'' = None"
  shows "\<exists>mid. new_events w0 (fst (run self env w)) =
      StartRun ''Model Comparison'' # mid @
        [EndRun (case snd (run self env w) of Inl e \<Rightarrow> FAILED | Inr u \<Rightarrow> FINISHED)] \<and>
      list_all (\<lambda>e. \<not> is_scope_event e) mid"
proof -
  let ?body = "and_then (comparison_metrics self env) (\<lambda>(s, p). run_promotion_logic self env s p)"
  let ?w1 = "emit (StartRun ''Model Comparison'') w0"
  obtain w2 r where body: "?body ?w1 = (w2, r)"
    by (cases "?body ?w1")
  from run_body_appends [of self env ?w1] body
  obtain mid where mid: "events w2 = events ?w1 @ mid" "list_all (\<lambda>e. \<not> is_scope_event e) mid"
    by auto
  have run_is: "run self env w =
      (emit (EndRun (case r of Inl e \<Rightarrow> FAILED | Inr u \<Rightarrow> FINISHED)) w2, r)"
    using assms body by (simp add: run_split and_then_def with_start_run_unfold split: sum.splits)
  have "new_events w0 (fst (run self env w)) =
      StartRun ''Model Comparison'' # mid @
        [EndRun (case snd (run self env w) of Inl e \<Rightarrow> FAILED | Inr u \<Rightarrow> FINISHED)]"
    using mid(1) by (simp add: run_is new_events_def emit_def)
  with mid(2) show ?thesis by blast
qed

text \<open>A run whose evaluator raises on the staging predictions: the run is ended with FAILED and the error is passed on.\<close>

theorem run_scope_closed_witness:
  "set_experiment demo_deployment (demo_env\<lparr>evaluate := \<lambda>w y_true y_score metric_prefix. Inl (External ''evaluator'')\<rparr>)
     demo_world = (emit (SetExperimentId 7) demo_world, Inr ()) \<and>
   mlflow_start_run (demo_env\<lparr>evaluate := \<lambda>w y_true y_score metric_prefix. Inl (External ''evaluator'')\<rparr>)
     (emit (SetExperimentId 7) demo_world) ''Model Comparison'' = None \<and>
   snd (run demo_deployment (demo_env\<lparr>evaluate := \<lambda>w y_true y_score metric_prefix. Inl (External ''evaluator'')\<rparr>)
     demo_world) = Inl (External ''evaluator'') \<and>
   new_events (emit (SetExperimentId 7) demo_world)
     (fst (run demo_deployment (demo_env\<lparr>evaluate := \<lambda>w y_true y_score metric_prefix. Inl (External ''evaluator'')\<rparr>)
        demo_world)) =
     [StartRun ''Model Comparison'',
      RunBatch ''models:/churn/staging'' ''ref'', RunBatch ''models:/churn/production'' ''ref'',
      ToPandas, ToPandas, Evaluate ''staging_'', EndRun FAILED] \<and>
   (\<exists>mid. new_events (emit (SetExperimentId 7) demo_world)
       (fst (run demo_deployment (demo_env\<lparr>evaluate := \<lambda>w y_true y_score metric_prefix. Inl (External ''evaluator'')\<rparr>)
          demo_world)) =
       StartRun ''Model Comparison'' # mid @ [EndRun FAILED])"
proof -
  let ?env = "demo_env\<lparr>evaluate := \<lambda>w y_true y_score metric_prefix. Inl (External ''evaluator'')\<rparr>"
  let ?w0 = "emit (SetExperimentId 7) demo_world"
  have start: "set_experiment demo_deployment ?env demo_world = (?w0, Inr ())"
    by (simp add: set_experiment_def call_unit_def demo_deployment_def demo_env_def)
  have opened: "mlflow_start_run ?env w' ''Model Comparison'' = None" for w'
    by (simp add: demo_env_def)
  have opened0: "mlflow_start_run demo_env w' ''Model Comparison'' = None" for w'
    by (simp add: demo_env_def)
  have metrics: "comparison_metrics demo_deployment ?env w' =
      (w'\<lparr>events := events w' @
         [RunBatch ''models:/churn/staging'' ''ref'', RunBatch ''models:/churn/production'' ''ref'',
          ToPandas, ToPandas, Evaluate ''staging_'']\<rparr>, Inl (External ''evaluator''))" for w'
    by (simp add: metric_steps demo_deployment_def demo_env_def demo_frame_def
        get_model_uri_by_stage_def emit_def)
  have run_is: "run demo_deployment ?env demo_world =
      (?w0\<lparr>events := events ?w0 @
         [StartRun ''Model Comparison'',
          RunBatch ''models:/churn/staging'' ''ref'', RunBatch ''models:/churn/production'' ''ref'',
          ToPandas, ToPandas, Evaluate ''staging_'', EndRun FAILED]\<rparr>, Inl (External ''evaluator''))"
    by (simp add: run_split and_then_def start opened0 with_start_run_unfold metrics emit_def)
  have failed: "snd (run demo_deployment ?env demo_world) = Inl (External ''evaluator'')"
    by (simp add: run_is)
  have trace: "new_events ?w0 (fst (run demo_deployment ?env demo_world)) =
     [StartRun ''Model Comparison'',
      RunBatch ''models:/churn/staging'' ''ref'', RunBatch ''models:/churn/production'' ''ref'',
      ToPandas, ToPandas, Evaluate ''staging_'', EndRun FAILED]"
    by (simp add: run_is new_events_def)
  from run_scope_closed [OF start opened]
  have closed: "\<exists>mid. new_events ?w0 (fst (run demo_deployment ?env demo_world)) =
       StartRun ''Model Comparison'' # mid @ [EndRun FAILED]"
    unfolding failed by auto
  from start opened failed trace closed show ?thesis by (intro conjI)
qed

section \<open>The comparison metric\<close>

lemma get_evaluation_metric_unfold:
  "get_evaluation_metric env y_true y_score metric stage w =
     (case evaluate env w y_true y_score (stage @ ''_'') of
        Inl err \<Rightarrow> (emit (Evaluate (stage @ ''_'')) w, Inl err)
      | Inr d \<Rightarrow>
          (case mlflow_log_metrics env (emit (Evaluate (stage @ ''_'')) w) d of
             Some err \<Rightarrow> (emit (LogMetrics d) (emit (Evaluate (stage @ ''_'')) w), Inl err)
           | None \<Rightarrow>
               (case d (stage @ ''_'' @ metric) of
                  None \<Rightarrow> (emit (LogMetrics d) (emit (Evaluate (stage @ ''_'')) w),
                            Inl (KeyError (stage @ ''_'' @ metric)))
                | Some v \<Rightarrow> (emit (LogMetrics d) (emit (Evaluate (stage @ ''_'')) w), Inr v))))"
  by (simp add: get_evaluation_metric_def Let_def and_then_call and_then_call_unit
      getitem_def raise_def return_value_def split: sum.splits option.splits)

lemma run_without_metric_key:
  assumes "(\<forall>w' yt ys d. evaluate env w' yt ys ''staging_'' = Inr d \<longrightarrow>
              d (''staging_'' @ comparison_metric self) = None) \<or>
           (\<forall>w' yt ys d. evaluate env w' yt ys ''production_'' = Inr d \<longrightarrow>
              d (''production_'' @ comparison_metric self) = None)"
  shows "(\<exists>e. snd (run self env w) = Inl e) \<and>
     list_all (\<lambda>e. \<not> is_registry_call e) (new_events w (fst (run self env w))) \<and>
     registry (fst (run self env w)) = registry w"
proof -
  consider (failed) "(\<exists>e. snd (run self env w) = Inl e) \<and>
         registry (fst (run self env w)) = registry w \<and>
         list_all (\<lambda>e. \<not> is_registry_call e) (new_events w (fst (run self env w)))"
    | (reached) d1 d2 s p wa ya yb wb yc yd where
      "evaluate env wa ya yb ''staging_'' = Inr d1"
      "d1 (''staging_'' @ comparison_metric self) = Some s"
      "evaluate env wb yc yd ''production_'' = Inr d2"
      "d2 (''production_'' @ comparison_metric self) = Some p"
    using run_shape [of self env w] by blast
  then show ?thesis
  proof cases
    case failed
    then show ?thesis by blast
  next
    case (reached d1 d2 s p wa ya yb wb yc yd)
    from assms have False
    proof
      assume "\<forall>w' yt ys d. evaluate env w' yt ys ''staging_'' = Inr d \<longrightarrow>
              d (''staging_'' @ comparison_metric self) = None"
      from this [rule_format, OF reached(1)] reached(2) show False by simp
    next
      assume "\<forall>w' yt ys d. evaluate env w' yt ys ''production_'' = Inr d \<longrightarrow>
              d (''production_'' @ comparison_metric self) = None"
      from this [rule_format, OF reached(3)] reached(4) show False by simp
    qed
    then show ?thesis ..
  qed
qed

lemma run_logged_without_key:
  assumes "LogMetrics d \<in> set (new_events w (fst (run self env w)))"
    and "d (''staging_'' @ comparison_metric self) = None"
    and "d (''production_'' @ comparison_metric self) = None"
  shows "(\<exists>e. snd (run self env w) = Inl e) \<and>
     list_all (\<lambda>e. \<not> is_registry_call e) (new_events w (fst (run self env w))) \<and>
     registry (fst (run self env w)) = registry w"
proof (cases rule: run_cases [of self env w])
  case (failed e)
  then show ?thesis by blast
next
  case (quiet x d1 d2 s p status)
  from quiet(2) have "\<And>m. x \<noteq> LogMetrics m" "\<And>m. LogMetrics m \<noteq> x" by auto
  with assms(1) have "d = d1 \<or> d = d2" by (simp add: quiet(1))
  with assms(2,3) quiet(3,4) have False by auto
  then show ?thesis ..
next
  case (moved x d1 d2 s p status mv stage archive)
  from moved(2) have "\<And>m. x \<noteq> LogMetrics m" "\<And>m. LogMetrics m \<noteq> x" by auto
  with assms(1) have "d = d1 \<or> d = d2" by (simp add: moved(1))
  with assms(2,3) moved(3,4) have False by auto
  then show ?thesis ..
qed

text \<open>
  C4. When the evaluator has answered with a dictionary and the dictionary has been
  logged, \<^verbatim>\<open>_get_evaluation_metric\<close> returns the entry under the key made of the stage,
  an underscore and the metric name, and raises \<^verbatim>\<open>KeyError\<close> for that key when the
  dictionary has no such entry. In \<open>run\<close> no promotion is attempted then: when the
  evaluator's dictionaries for staging, or those for production, never hold the requested
  key, the run ends with an error, makes no call of the registry (neither the lookup nor a
  transition) and leaves the registry as it was; and the same holds for every run in which
  a dictionary was logged that holds the requested key under neither stage prefix.
\<close>

theorem metric_lookup:
  "(\<forall>d. evaluate env w y_true y_score (stage @ ''_'') = Inr d \<and>
        mlflow_log_metrics env (emit (Evaluate (stage @ ''_'')) w) d = None \<longrightarrow>
        snd (get_evaluation_metric env y_true y_score metric stage w) =
          (case d (stage @ ''_'' @ metric) of
             Some v \<Rightarrow> Inr v
           | None \<Rightarrow> Inl (KeyError (stage @ ''_'' @ metric)))) \<and>
   ((\<forall>w' yt ys d. evaluate env w' yt ys ''staging_'' = Inr d \<longrightarrow>
        d (''staging_'' @ comparison_metric self) = None) \<or>
    (\<forall>w' yt ys d. evaluate env w' yt ys ''production_'' = Inr d \<longrightarrow>
        d (''production_'' @ comparison_metric self) = None) \<longrightarrow>
      (\<exists>e. snd (run self env w) = Inl e) \<and>
      list_all (\<lambda>e. \<not> is_registry_call e) (new_events w (fst (run self env w))) \<and>
      registry (fst (run self env w)) = registry w) \<and>
   (\<forall>d. LogMetrics d \<in> set (new_events w (fst (run self env w))) \<and>
        d (''staging_'' @ comparison_metric self) = None \<and>
        d (''production_'' @ comparison_metric self) = None \<longrightarrow>
      (\<exists>e. snd (run self env w) = Inl e) \<and>
      list_all (\<lambda>e. \<not> is_registry_call e) (new_events w (fst (run self env w))) \<and>
      registry (fst (run self env w)) = registry w)"
  (is "?lookup \<and> ?never \<and> ?logged")
proof (intro conjI)
  show ?lookup
    by (simp add: get_evaluation_metric_unfold split: option.splits)
  show ?never
    using run_without_metric_key [of env self w] by blast
  show ?logged
    using run_logged_without_key [of _ w self env] by blast
qed

text \<open>
  The demo evaluator knows \<^verbatim>\<open>auc\<close> only: asked for \<^verbatim>\<open>f1\<close>, the run ends with
  \<^verbatim>\<open>KeyError\<close> after logging the staging metrics, before any call of the registry.
\<close>

theorem metric_lookup_witness:
  "evaluate demo_env demo_world [1, 0] [1, 1] (''staging'' @ ''_'') = Inr (demo_metrics ''staging_'') \<and>
   mlflow_log_metrics demo_env (emit (Evaluate (''staging'' @ ''_'')) demo_world) (demo_metrics ''staging_'') = None \<and>
   demo_metrics ''staging_'' ''staging_auc'' = Some (Fin (85 / 100)) \<and>
   snd (get_evaluation_metric demo_env [1, 0] [1, 1] ''auc'' ''staging'' demo_world) = Inr (Fin (85 / 100)) \<and>
   demo_metrics ''staging_'' ''staging_f1'' = None \<and>
   snd (get_evaluation_metric demo_env [1, 0] [1, 1] ''f1'' ''staging'' demo_world) =
     Inl (KeyError ''staging_f1'') \<and>
   snd (run (demo_deployment\<lparr>comparison_metric := ''f1''\<rparr>) demo_env demo_world) =
     Inl (KeyError ''staging_f1'') \<and>
   new_events demo_world (fst (run (demo_deployment\<lparr>comparison_metric := ''f1''\<rparr>) demo_env demo_world)) =
     [SetExperimentId 7, StartRun ''Model Comparison'',
      RunBatch ''models:/churn/staging'' ''ref'', RunBatch ''models:/churn/production'' ''ref'',
      ToPandas, ToPandas, Evaluate ''staging_'', LogMetrics (demo_metrics ''staging_''),
      EndRun FAILED] \<and>
   list_all (\<lambda>e. \<not> is_registry_call e)
     (new_events demo_world (fst (run (demo_deployment\<lparr>comparison_metric := ''f1''\<rparr>) demo_env demo_world))) \<and>
   registry (fst (run (demo_deployment\<lparr>comparison_metric := ''f1''\<rparr>) demo_env demo_world)) =
     registry demo_world"
proof -
  let ?cfg = "demo_deployment\<lparr>comparison_metric := ''f1''\<rparr>"
  have answers: "evaluate demo_env w' yt ys px = Inr (demo_metrics px)"
    "mlflow_log_metrics demo_env w' d = None" "mlflow_start_run demo_env w' n = None"
    for w' yt ys px d n
    by (simp_all add: demo_env_def)
  have auc: "demo_metrics ''staging_'' ''staging_auc'' = Some (Fin (85 / 100))"
    and f1: "demo_metrics ''staging_'' ''staging_f1'' = None"
    by (simp_all add: demo_metrics_def)
  note fact = metric_lookup [where env = demo_env and w = demo_world and y_true = "[1, 0]"
      and y_score = "[1, 1]" and stage = "''staging''" and self = ?cfg]
  from fact [where metric = "''auc''"] answers auc
  have found: "snd (get_evaluation_metric demo_env [1, 0] [1, 1] ''auc'' ''staging'' demo_world) =
      Inr (Fin (85 / 100))"
    by simp
  from fact [where metric = "''f1''"] answers f1
  have missing: "snd (get_evaluation_metric demo_env [1, 0] [1, 1] ''f1'' ''staging'' demo_world) =
      Inl (KeyError ''staging_f1'')"
    by simp
  have never: "\<forall>w' yt ys d. evaluate demo_env w' yt ys ''staging_'' = Inr d \<longrightarrow>
      d (''staging_'' @ comparison_metric ?cfg) = None"
    using f1 by (auto simp add: answers)
  with fact [where metric = "''f1''"]
  have quiet: "list_all (\<lambda>e. \<not> is_registry_call e)
       (new_events demo_world (fst (run ?cfg demo_env demo_world)))"
    and kept: "registry (fst (run ?cfg demo_env demo_world)) = registry demo_world"
    by blast+
  have start: "set_experiment ?cfg demo_env w' = (emit (SetExperimentId 7) w', Inr ())" for w'
    by (simp add: set_experiment_def call_unit_def demo_deployment_def demo_env_def)
  have metrics: "comparison_metrics ?cfg demo_env w' =
      (w'\<lparr>events := events w' @
         [RunBatch ''models:/churn/staging'' ''ref'', RunBatch ''models:/churn/production'' ''ref'',
          ToPandas, ToPandas, Evaluate ''staging_'', LogMetrics (demo_metrics ''staging_'')]\<rparr>,
       Inl (KeyError ''staging_f1''))" for w'
    by (simp add: metric_steps demo_deployment_def demo_env_def demo_frame_def
        get_model_uri_by_stage_def emit_def f1)
  have run_is: "run ?cfg demo_env demo_world =
      (demo_world\<lparr>events := events demo_world @
         [SetExperimentId 7, StartRun ''Model Comparison'',
          RunBatch ''models:/churn/staging'' ''ref'', RunBatch ''models:/churn/production'' ''ref'',
          ToPandas, ToPandas, Evaluate ''staging_'', LogMetrics (demo_metrics ''staging_''),
          EndRun FAILED]\<rparr>, Inl (KeyError ''staging_f1''))"
    by (simp add: run_split and_then_def start answers with_start_run_unfold metrics emit_def)
  have failed: "snd (run ?cfg demo_env demo_world) = Inl (KeyError ''staging_f1'')"
    by (simp add: run_is)
  have trace: "new_events demo_world (fst (run ?cfg demo_env demo_world)) =
     [SetExperimentId 7, StartRun ''Model Comparison'',
      RunBatch ''models:/churn/staging'' ''ref'', RunBatch ''models:/churn/production'' ''ref'',
      ToPandas, ToPandas, Evaluate ''staging_'', LogMetrics (demo_metrics ''staging_''),
      EndRun FAILED]"
    by (simp add: run_is new_events_def)
  have asked: "evaluate demo_env demo_world [1, 0] [1, 1] (''staging'' @ ''_'') = Inr (demo_metrics ''staging_'')"
    "mlflow_log_metrics demo_env (emit (Evaluate (''staging'' @ ''_'')) demo_world) (demo_metrics ''staging_'') = None"
    by (simp_all add: answers)
  from asked auc found f1 missing failed trace quiet kept show ?thesis by (intro conjI)
qed

section \<open>Metrics that do not compare\<close>

text \<open>
  C2. The promotion decision is not made for every triple of staging metric, production
  metric and flag. When a metric is \<^verbatim>\<open>nan\<close>, the test of the first branch
  (\<^verbatim>\<open><=\<close>, or \<^verbatim>\<open>>=\<close> without \<open>higher_is_better\<close>) is false and so is the test of the
  \<^verbatim>\<open>elif\<close>: \<^verbatim>\<open>_run_promotion_logic\<close> looks the staging version up, issues no
  transition and returns normally, the candidate still in staging. The docstrings of the
  class and of the method say that the candidate is either promoted or archived.
\<close>

theorem promotion_undecided_on_nan:
  "run_promotion_logic demo_deployment demo_env NaN (Fin (80 / 100)) demo_world =
     (emit (GetLatestVersions ''churn'' [''staging'']) demo_world, Inr ()) \<and>
   run_promotion_logic (demo_deployment\<lparr>higher_is_better := False\<rparr>) demo_env NaN (Fin (80 / 100)) demo_world =
     (emit (GetLatestVersions ''churn'' [''staging'']) demo_world, Inr ()) \<and>
   run_promotion_logic demo_deployment demo_env (Fin (85 / 100)) NaN demo_world =
     (emit (GetLatestVersions ''churn'' [''staging'']) demo_world, Inr ()) \<and>
   decisions (new_events demo_world
     (fst (run_promotion_logic demo_deployment demo_env NaN (Fin (80 / 100)) demo_world))) = [] \<and>
   registry (fst (run_promotion_logic demo_deployment demo_env NaN (Fin (80 / 100)) demo_world)) =
     registry demo_world"
proof -
  have name: "model_registry_name demo_deployment = ''churn''"
    "model_registry_name (demo_deployment\<lparr>higher_is_better := False\<rparr>) = ''churn''"
    and flag: "higher_is_better demo_deployment"
    "\<not> higher_is_better (demo_deployment\<lparr>higher_is_better := False\<rparr>)"
    by (simp_all add: demo_deployment_def)
  have fault: "lookup_fault demo_env w' n st = None" for w' n st
    by (simp add: demo_env_def)
  have a: "run_promotion_logic demo_deployment demo_env NaN (Fin (80 / 100)) demo_world =
     (emit (GetLatestVersions ''churn'' [''staging'']) demo_world, Inr ())"
    by (simp add: run_promotion_logic_unfold Let_def name flag fault demo_world_fields
        demo_latest_staging float_gt_def)
  have b: "run_promotion_logic (demo_deployment\<lparr>higher_is_better := False\<rparr>) demo_env NaN
       (Fin (80 / 100)) demo_world =
     (emit (GetLatestVersions ''churn'' [''staging'']) demo_world, Inr ())"
    by (simp add: run_promotion_logic_unfold Let_def name flag fault demo_world_fields
        demo_latest_staging float_ge_def)
  have c: "run_promotion_logic demo_deployment demo_env (Fin (85 / 100)) NaN demo_world =
     (emit (GetLatestVersions ''churn'' [''staging'']) demo_world, Inr ())"
    by (simp add: run_promotion_logic_unfold Let_def name flag fault demo_world_fields
        demo_latest_staging float_gt_def)
  have d: "decisions (new_events demo_world
     (fst (run_promotion_logic demo_deployment demo_env NaN (Fin (80 / 100)) demo_world))) = []"
    unfolding a by (simp add: new_events_emit_only)
  have e: "registry (fst (run_promotion_logic demo_deployment demo_env NaN (Fin (80 / 100)) demo_world)) =
     registry demo_world"
    unfolding a by (simp add: emit_registry)
  from a b c d e show ?thesis by (intro conjI)
qed

section \<open>Metrics that compare\<close>

lemma float_total_order:
  assumes "s \<noteq> NaN" and "p \<noteq> NaN"
  shows "float_le s p \<or> float_lt p s"
  using assms by (cases s; cases p) auto

lemma promotion_decisions:
  assumes "lookup_fault env w (model_registry_name self) [''staging''] = None"
    and "latest_version (registry w) (model_registry_name self) ''staging'' = Some mv"
  shows "decisions (new_events w (fst (run_promotion_logic self env s p w))) =
     (if higher_is_better self then
        if float_le s p then [(''archived'', False)]
        else if float_gt s p then [(''production'', True)] else []
      else
        if float_ge s p then [(''archived'', False)]
        else if float_lt s p then [(''production'', True)] else [])"
  using assms
  by (simp add: run_promotion_logic_unfold Let_def new_events_transition_after_lookup
      new_events_emit_only)

text \<open>
  Whenever the lookup answers with a staging version, the decision read off the trace of
  \<^verbatim>\<open>_run_promotion_logic\<close> is the same for any two deployments with the same
  \<open>higher_is_better\<close>, whatever their other fields, the collaborators and the registry; and
  when neither metric is \<^verbatim>\<open>nan\<close> it is one decision, to archive or to promote.
\<close>

theorem decision_depends_on_triple_only:
  assumes "lookup_fault env w (model_registry_name self) [''staging''] = None"
    and "latest_version (registry w) (model_registry_name self) ''staging'' = Some mv"
    and "lookup_fault env' w' (model_registry_name self') [''staging''] = None"
    and "latest_version (registry w') (model_registry_name self') ''staging'' = Some mv'"
    and "higher_is_better self' = higher_is_better self"
  shows "decisions (new_events w' (fst (run_promotion_logic self' env' s p w'))) =
         decisions (new_events w (fst (run_promotion_logic self env s p w))) \<and>
     (s \<noteq> NaN \<and> p \<noteq> NaN \<longrightarrow>
        decisions (new_events w (fst (run_promotion_logic self env s p w))) = [(''archived'', False)] \<or>
        decisions (new_events w (fst (run_promotion_logic self env s p w))) = [(''production'', True)])"
proof
  show "decisions (new_events w' (fst (run_promotion_logic self' env' s p w'))) =
         decisions (new_events w (fst (run_promotion_logic self env s p w)))"
    by (simp add: promotion_decisions [OF assms(1,2)] promotion_decisions [OF assms(3,4)] assms(5))
  show "s \<noteq> NaN \<and> p \<noteq> NaN \<longrightarrow>
        decisions (new_events w (fst (run_promotion_logic self env s p w))) = [(''archived'', False)] \<or>
        decisions (new_events w (fst (run_promotion_logic self env s p w))) = [(''production'', True)]"
  proof
    assume "s \<noteq> NaN \<and> p \<noteq> NaN"
    then have "float_le s p \<or> float_lt p s" "float_le p s \<or> float_lt s p"
      by (simp_all add: float_total_order)
    then show "decisions (new_events w (fst (run_promotion_logic self env s p w))) = [(''archived'', False)] \<or>
        decisions (new_events w (fst (run_promotion_logic self env s p w))) = [(''production'', True)]"
      by (auto simp add: promotion_decisions [OF assms(1,2)] float_gt_def float_ge_def)
  qed
qed

text \<open>Two deployments that share nothing but the flag and the two metrics decide alike.\<close>

theorem decision_depends_on_triple_only_witness:
  "lookup_fault demo_env demo_world (model_registry_name demo_deployment) [''staging''] = None \<and>
   latest_version (registry demo_world) (model_registry_name demo_deployment) ''staging'' =
     Some \<lparr>mv_name = ''churn'', mv_version = 3, current_stage = ''staging''\<rparr> \<and>
   lookup_fault demo_env
     \<lparr>events = [ToPandas], registry = [\<lparr>mv_name = ''fraud'', mv_version = 5, current_stage = ''staging''\<rparr>]\<rparr>
     ''fraud'' [''staging''] = None \<and>
   latest_version [\<lparr>mv_name = ''fraud'', mv_version = 5, current_stage = ''staging''\<rparr>] ''fraud'' ''staging'' =
     Some \<lparr>mv_name = ''fraud'', mv_version = 5, current_stage = ''staging''\<rparr> \<and>
   higher_is_better demo_deployment \<and>
   decisions (new_events
       \<lparr>events = [ToPandas], registry = [\<lparr>mv_name = ''fraud'', mv_version = 5, current_stage = ''staging''\<rparr>]\<rparr>
       (fst (run_promotion_logic
          \<lparr>model_registry_name = ''fraud'', reference_data = ''cards'', label_col = ''y'',
           comparison_metric = ''f1'', higher_is_better = True,
           experiment_id = None, experiment_path = Some ''/Shared/fraud''\<rparr>
          demo_env (Fin (85 / 100)) (Fin (80 / 100))
          \<lparr>events = [ToPandas], registry = [\<lparr>mv_name = ''fraud'', mv_version = 5, current_stage = ''staging''\<rparr>]\<rparr>))) =
     decisions (new_events demo_world
       (fst (run_promotion_logic demo_deployment demo_env (Fin (85 / 100)) (Fin (80 / 100)) demo_world))) \<and>
   decisions (new_events demo_world
       (fst (run_promotion_logic demo_deployment demo_env (Fin (85 / 100)) (Fin (80 / 100)) demo_world))) =
     [(''production'', True)]"
proof -
  let ?mv = "\<lparr>mv_name = ''churn'', mv_version = 3, current_stage = ''staging''\<rparr>"
  let ?mv' = "\<lparr>mv_name = ''fraud'', mv_version = 5, current_stage = ''staging''\<rparr>"
  let ?w' = "\<lparr>events = [ToPandas], registry = [?mv']\<rparr>"
  let ?self' = "\<lparr>model_registry_name = ''fraud'', reference_data = ''cards'', label_col = ''y'',
           comparison_metric = ''f1'', higher_is_better = True,
           experiment_id = None, experiment_path = Some ''/Shared/fraud''\<rparr>"
  have fault: "lookup_fault demo_env w n st = None" for w n st
    by (simp add: demo_env_def)
  have name: "model_registry_name demo_deployment = ''churn''" and flag: "higher_is_better demo_deployment"
    by (simp_all add: demo_deployment_def)
  have latest: "latest_version (registry demo_world) (model_registry_name demo_deployment) ''staging'' = Some ?mv"
    by (simp add: name demo_world_fields demo_latest_staging)
  have latest': "latest_version [?mv'] ''fraud'' ''staging'' = Some ?mv'"
    by (simp add: latest_version_def in_stage_def)
  then have latest'': "latest_version (registry ?w') (model_registry_name ?self') ''staging'' = Some ?mv'"
    by simp
  have same: "higher_is_better ?self' = higher_is_better demo_deployment"
    by (simp add: flag)
  note fact = decision_depends_on_triple_only [OF fault latest _ latest'' same,
      where env' = demo_env and s = "Fin (85 / 100)" and p = "Fin (80 / 100)", OF fault]
  from fact have equal: "decisions (new_events ?w'
       (fst (run_promotion_logic ?self' demo_env (Fin (85 / 100)) (Fin (80 / 100)) ?w'))) =
     decisions (new_events demo_world
       (fst (run_promotion_logic demo_deployment demo_env (Fin (85 / 100)) (Fin (80 / 100)) demo_world)))"
    by (rule conjunct1)
  have promoted: "decisions (new_events demo_world
       (fst (run_promotion_logic demo_deployment demo_env (Fin (85 / 100)) (Fin (80 / 100)) demo_world))) =
     [(''production'', True)]"
    by (simp add: promotion_decisions [OF fault latest] flag float_gt_def)
  from fault [of demo_world "model_registry_name demo_deployment" "[''staging'']"] latest
    fault [of ?w' "''fraud''" "[''staging'']"] latest' flag equal promoted
  show ?thesis by (intro conjI)
qed

end
